theory Spec2Isabelle
  imports Complex_Main
begin

section \<open>Conventions of the embedding\<close>

text \<open>
  The repository is a single-column radiative-convective model written in Python with
  numpy. This theory embeds \<^verbatim>\<open>konrad/convection.py\<close> and the integrated-water-vapor
  part of \<^verbatim>\<open>konrad/humidity/__init__.py\<close>.

  \<^item> A one-dimensional numpy array of floats is a \<open>real list\<close>; a Python float is a
    \<open>real\<close>. Rounding and overflow are not modelled.
  \<^item> The profiles of one column are aligned index for index with the pressure levels,
    and the half levels have one element more. The elementwise operations are written
    with \<open>map2\<close>; the theorems that read single levels state the alignment of the
    lengths as a hypothesis.
  \<^item> A raise of the source is a value \<open>Inl e\<close> of the result type. Where numpy divides
    an array by zero it yields \<open>inf\<close> or \<open>nan\<close> and goes on; where such a value would
    reach a result the model stops with \<open>Inl NonFinite\<close>, since it lies outside the
    reals. The relaxation fraction is followed through an infinite quotient, because
    its value is finite again.
  \<^item> The while loop of \<^verbatim>\<open>convective_adjustment\<close> is a partial function into
    \<open>option\<close>: \<open>None\<close> would be a loop that never ends.
\<close>

datatype error =
    ValueError string
  | IndexError
  | KeyError
  | NameError string
  | ZeroDivisionError
  | NonFinite

subsection \<open>numpy helpers\<close>

text \<open>\<^verbatim>\<open>np.diff(xs)\<close>: the differences of neighbours, one element fewer.\<close>

definition np_diff :: "real list \<Rightarrow> real list" where
  "np_diff xs = map2 (\<lambda>a b. b - a) xs (tl xs)"

text \<open>\<^verbatim>\<open>np.cumsum(xs)\<close>: the running sums.\<close>

fun cumsum_from :: "real \<Rightarrow> real list \<Rightarrow> real list" where
  "cumsum_from acc [] = []"
| "cumsum_from acc (x # xs) = (acc + x) # cumsum_from (acc + x) xs"

definition np_cumsum :: "real list \<Rightarrow> real list" where
  "np_cumsum xs = cumsum_from 0 xs"

text \<open>\<^verbatim>\<open>np.min(xs)\<close> raises \<^verbatim>\<open>ValueError\<close> on an empty array.\<close>

definition np_min :: "real list \<Rightarrow> error + real" where
  "np_min xs =
     (case xs of
        [] \<Rightarrow> Inl (ValueError ''zero-size array to reduction operation minimum'')
      | x # ys \<Rightarrow> Inr (fold min ys x))"

text \<open>
  \<^verbatim>\<open>np.argmax(bs)\<close> on an array of booleans: the first index that holds \<^verbatim>\<open>True\<close>, and 0
  when none does (every element is then the maximum). It raises \<^verbatim>\<open>ValueError\<close> on an
  empty array.
\<close>

definition np_argmax :: "bool list \<Rightarrow> error + nat" where
  "np_argmax bs =
     (if bs = [] then Inl (ValueError ''attempt to get argmax of an empty sequence'')
      else Inr (if True \<in> set bs then length (takeWhile Not bs) else 0))"

text \<open>Elementwise array division; a zero divisor yields \<open>inf\<close> or \<open>nan\<close> in numpy.\<close>

definition np_divide :: "real list \<Rightarrow> real list \<Rightarrow> error + real list" where
  "np_divide xs ys =
     (if \<exists>(x, y) \<in> set (zip xs ys). y = 0 then Inl NonFinite
      else Inr (map2 (\<lambda>x y. x / y) xs ys))"

text \<open>
  \<^verbatim>\<open>xs[i]\<close> for an integer \<^verbatim>\<open>i\<close>: an index below zero is taken from the end of the
  array, and one outside both ranges raises \<^verbatim>\<open>IndexError\<close>.
\<close>

definition py_getitem :: "real list \<Rightarrow> int \<Rightarrow> error + real" where
  "py_getitem xs i =
     (if 0 \<le> i \<and> i < int (length xs) then Inr (xs ! nat i)
      else if i < 0 \<and> - int (length xs) \<le> i then Inr (xs ! nat (int (length xs) + i))
      else Inl IndexError)"

subsection \<open>External collaborators\<close>

text \<open>
  The constants table \<^verbatim>\<open>konrad.constants\<close>, typhon's density and scipy's
  \<^verbatim>\<open>interp1d\<close> are not part of the source files; the model takes them as parameters.
  \<open>interp1d_extrapolate x y xnew\<close> stands for
  \<^verbatim>\<open>interp1d(x, y, fill_value='extrapolate')(xnew)\<close> and \<open>interp1d x y v\<close> for
  \<^verbatim>\<open>interp1d(x, y)(v)\<close>, which raises outside the range of \<open>x\<close>.
\<close>

record externals =
  isobaric_mass_heat_capacity :: real
  const_g :: real
  earth_standard_gravity :: real
  density :: "real list \<Rightarrow> real list \<Rightarrow> real list"
  interp1d_extrapolate :: "real list \<Rightarrow> real list \<Rightarrow> real list \<Rightarrow> error + real list"
  interp1d :: "real list \<Rightarrow> real list \<Rightarrow> real \<Rightarrow> error + real"

text \<open>
  The surface model: its temperature, its heat capacity (undefined for a surface of
  fixed temperature, where reading it raises \<^verbatim>\<open>KeyError\<close>) and whether it is an instance
  of \<^verbatim>\<open>SurfaceFixedTemperature\<close>.
\<close>

record surface =
  temperature :: real
  heat_capacity :: "real option"
  fixed_temperature :: bool

record atmosphere =
  atm_T :: "real list"
  atm_plev :: "real list"
  atm_phlev :: "real list"
  atm_H2O :: "real list"

section \<open>Energy budget\<close>

text \<open>
  \<^verbatim>\<open>energy_difference\<close>: \<^verbatim>\<open>- np.sum(Cp/g * dT * dp) + eff_Cp_s * dT_s\<close>. The constants are
  plain Python numbers, so a zero \<^verbatim>\<open>g\<close> raises \<^verbatim>\<open>ZeroDivisionError\<close>.
\<close>

definition energy_difference ::
  "externals \<Rightarrow> real list \<Rightarrow> real list \<Rightarrow> real \<Rightarrow> real \<Rightarrow> real list \<Rightarrow> real \<Rightarrow> error + real"
where
  "energy_difference ext T_2 T_1 sst_2 sst_1 dp eff_Cp_s =
     (if const_g ext = 0 then Inl ZeroDivisionError
      else
        let dT = map2 (\<lambda>a b. a - b) T_2 T_1;
            dT_s = sst_2 - sst_1
        in Inr (- sum_list (map2 (\<lambda>t d. isobaric_mass_heat_capacity ext / const_g ext * t * d) dT dp)
                + eff_Cp_s * dT_s))"

text \<open>\<^verbatim>\<open>energy_threshold\<close>: the \<^verbatim>\<open>KeyError\<close> of an undefined heat capacity is caught.\<close>

definition energy_threshold :: "surface \<Rightarrow> real" where
  "energy_threshold s =
     (case heat_capacity s of
        Some hc \<Rightarrow> hc / 10 ^ 13
      | None \<Rightarrow> 1 / 10 ^ 8)"

section \<open>Convective-top interpolation\<close>

definition interp_variable ::
  "externals \<Rightarrow> real list \<Rightarrow> real list \<Rightarrow> real \<Rightarrow> error + real"
where
  "interp_variable ext variable convective_heating lm =
     (case np_argmax (map (\<lambda>h. h > lm) convective_heating) of
        Inl e \<Rightarrow> Inl e
      | Inr positive_i \<Rightarrow>
     (case np_argmax (map (\<lambda>h. h < lm) (drop positive_i convective_heating)) of
        Inl e \<Rightarrow> Inl e
      | Inr k \<Rightarrow>
     (let contop_index = int k + int positive_i in
      case py_getitem convective_heating (contop_index - 1) of
        Inl e \<Rightarrow> Inl e
      | Inr h0 \<Rightarrow>
     (case py_getitem convective_heating contop_index of
        Inl e \<Rightarrow> Inl e
      | Inr h1 \<Rightarrow>
     (case py_getitem variable (contop_index - 1) of
        Inl e \<Rightarrow> Inl e
      | Inr v0 \<Rightarrow>
     (case py_getitem variable contop_index of
        Inl e \<Rightarrow> Inl e
      | Inr v1 \<Rightarrow> interp1d ext [h0, h1] [v0, v1] lm))))))"

section \<open>Profile builders\<close>

text \<open>
  Lines 155 to 159 of \<^verbatim>\<open>convective_adjustment\<close>: the density on the half levels and the
  lapse rate in K/Pa, \<^verbatim>\<open>lp = -lapse / (g * density)\<close>.
\<close>

definition lapse_Pa ::
  "externals \<Rightarrow> real list \<Rightarrow> real list \<Rightarrow> real list \<Rightarrow> real list \<Rightarrow> error + real list"
where
  "lapse_Pa ext p phlev T_rad lapse =
     (case interp1d_extrapolate ext p (density ext p T_rad) (butlast phlev) of
        Inl e \<Rightarrow> Inl e
      | Inr dens \<Rightarrow>
          np_divide (map uminus lapse) (map (\<lambda>d. earth_standard_gravity ext * d) dens))"

text \<open>\<^verbatim>\<open>dp_lapse = np.hstack((np.array([p[0] - phlev[0]]), np.diff(p)))\<close>\<close>

definition dp_lapse :: "real list \<Rightarrow> real list \<Rightarrow> real list" where
  "dp_lapse p phlev = (p ! 0 - phlev ! 0) # np_diff p"

text \<open>The adiabat \<^verbatim>\<open>surfaceT - np.cumsum(dp_lapse * lp)\<close>.\<close>

definition adiabat :: "real list \<Rightarrow> real list \<Rightarrow> real \<Rightarrow> real list \<Rightarrow> real list" where
  "adiabat p phlev sT lp =
     map (\<lambda>c. sT - c) (np_cumsum (map2 (\<lambda>a b. a * b) (dp_lapse p phlev) lp))"

text \<open>
  Lines 250 to 254: where the adiabat exceeds the radiative profile anywhere, the
  levels above the last such index are taken from the radiative profile.
\<close>

definition convective_top_cut :: "real list \<Rightarrow> real list \<Rightarrow> real list" where
  "convective_top_cut Tc T_rad =
     (let unstable = filter (\<lambda>i. Tc ! i > T_rad ! i) [0..<min (length Tc) (length T_rad)]
      in if unstable \<noteq> [] then
           (let contop = last unstable
            in take (contop + 1) Tc @ drop (contop + 1) T_rad)
         else T_rad)"

definition HardAdjustment_test_profile ::
  "externals \<Rightarrow> real list \<Rightarrow> real list \<Rightarrow> real list \<Rightarrow> surface \<Rightarrow> real \<Rightarrow> real list \<Rightarrow> real
     \<Rightarrow> error + real list \<times> real"
where
  "HardAdjustment_test_profile ext T_rad p phlev s sT lp timestep =
     (if p = [] \<or> phlev = [] then Inl IndexError
      else
        let dp = np_diff phlev;
            Tc = convective_top_cut (adiabat p phlev sT lp) T_rad
        in if fixed_temperature s then Inr (Tc, 0)
           else
             (case heat_capacity s of
                None \<Rightarrow> Inl KeyError
              | Some eff_Cp_s \<Rightarrow>
                  (case energy_difference ext Tc T_rad sT (temperature s) dp eff_Cp_s of
                     Inl e \<Rightarrow> Inl e
                   | Inr d \<Rightarrow> Inr (Tc, d))))"

text \<open>
  \<^verbatim>\<open>RelaxedAdjustment.get_convective_tau\<close>: the timescale given at construction, or
  \<^verbatim>\<open>tau0 * np.exp(p[0] / p)\<close> with \<^verbatim>\<open>tau0 = 1/24\<close>.
\<close>

definition get_convective_tau :: "real list option \<Rightarrow> real list \<Rightarrow> error + real list" where
  "get_convective_tau convective_tau p =
     (case convective_tau of
        Some tau \<Rightarrow> Inr tau
      | None \<Rightarrow>
          (if p = [] then Inl IndexError
           else if 0 \<in> set p then Inl NonFinite
           else Inr (map (\<lambda>q. 1 / 24 * exp (p ! 0 / q)) p)))"

text \<open>
  \<^verbatim>\<open>tf = 1 - np.exp(-timestep / tau)\<close>. Where \<^verbatim>\<open>tau\<close> is zero and the timestep positive,
  numpy divides to \<open>-inf\<close>, \<^verbatim>\<open>np.exp\<close> gives 0 and the fraction is 1, a finite value
  that the model follows. A zero of \<^verbatim>\<open>tau\<close> under a timestep that is zero or negative
  gives \<open>nan\<close> or \<open>-inf\<close> for the fraction itself.
\<close>

definition relaxation_fraction :: "real \<Rightarrow> real list \<Rightarrow> error + real list" where
  "relaxation_fraction timestep tau =
     (if 0 \<in> set tau \<and> \<not> 0 < timestep then Inl NonFinite
      else Inr (map (\<lambda>t. if t = 0 then 1 else 1 - exp (- timestep / t)) tau))"

text \<open>\<^verbatim>\<open>T_rad * (1 - tf) + tf * (surfaceT - np.cumsum(dp_lapse * lp))\<close>\<close>

definition relaxed_blend :: "real list \<Rightarrow> real list \<Rightarrow> real list \<Rightarrow> real list" where
  "relaxed_blend T_rad tf ad =
     map2 (\<lambda>a b. a + b) (map2 (\<lambda>t f. t * (1 - f)) T_rad tf) (map2 (\<lambda>f a. f * a) tf ad)"

definition RelaxedAdjustment_test_profile ::
  "externals \<Rightarrow> real list option \<Rightarrow> real list \<Rightarrow> real list \<Rightarrow> real list \<Rightarrow> surface \<Rightarrow> real
     \<Rightarrow> real list \<Rightarrow> real \<Rightarrow> error + real list \<times> real"
where
  "RelaxedAdjustment_test_profile ext convective_tau T_rad p phlev s sT lp timestep =
     (if p = [] \<or> phlev = [] then Inl IndexError
      else
        let dp = np_diff phlev in
        (case get_convective_tau convective_tau p of
           Inl e \<Rightarrow> Inl e
         | Inr tau \<Rightarrow>
        (case relaxation_fraction timestep tau of
           Inl e \<Rightarrow> Inl e
         | Inr tf \<Rightarrow>
             (let Tc = relaxed_blend T_rad tf (adiabat p phlev sT lp)
              in if fixed_temperature s then Inr (Tc, 0)
                 else
                   (case heat_capacity s of
                      None \<Rightarrow> Inl KeyError
                    | Some eff_Cp_s \<Rightarrow>
                        (case energy_difference ext Tc T_rad sT (temperature s) dp eff_Cp_s of
                           Inl e \<Rightarrow> Inl e
                         | Inr d \<Rightarrow> Inr (Tc, d)))))))"

text \<open>
  The two convection schemes that adjust; \<^verbatim>\<open>self.test_profile\<close> dispatches on the class
  of the scheme. \<open>Relaxed tau\<close> carries the attribute \<^verbatim>\<open>convective_tau\<close>.
\<close>

datatype scheme = Hard | Relaxed "real list option"

fun test_profile ::
  "externals \<Rightarrow> scheme \<Rightarrow> real list \<Rightarrow> real list \<Rightarrow> real list \<Rightarrow> surface \<Rightarrow> real
     \<Rightarrow> real list \<Rightarrow> real \<Rightarrow> error + real list \<times> real"
where
  "test_profile ext Hard T_rad p phlev s sT lp timestep =
     HardAdjustment_test_profile ext T_rad p phlev s sT lp timestep"
| "test_profile ext (Relaxed convective_tau) T_rad p phlev s sT lp timestep =
     RelaxedAdjustment_test_profile ext convective_tau T_rad p phlev s sT lp timestep"

section \<open>Root finder\<close>

text \<open>
  The variables of the while loop of \<^verbatim>\<open>convective_adjustment\<close> (lines 201 to 219), under
  the names of the source.
\<close>

record loop_state =
  surfaceTpos :: real
  diffpos :: real
  surfaceTneg :: real
  diffneg :: real
  surfaceT :: real
  T_con :: "real list"
  counter :: nat

text \<open>
  The trial surface temperature
  \<^verbatim>\<open>surfaceTneg + (surfaceTpos - surfaceTneg) * (-diffneg) / (-diffneg + diffpos)\<close>;
  the operands are arrays, so a zero denominator does not raise.
\<close>

definition secant :: "real \<Rightarrow> real \<Rightarrow> real \<Rightarrow> real \<Rightarrow> error + real" where
  "secant Tneg Tpos dneg dpos =
     (if - dneg + dpos = 0 then Inl NonFinite
      else Inr (Tneg + (Tpos - Tneg) * (- dneg) / (- dneg + dpos)))"

text \<open>The loop condition \<^verbatim>\<open>diffpos >= near_zero and -diffneg >= near_zero\<close>.\<close>

definition loop_cond :: "real \<Rightarrow> loop_state \<Rightarrow> bool" where
  "loop_cond near_zero st \<longleftrightarrow> diffpos st \<ge> near_zero \<and> - diffneg st \<ge> near_zero"

text \<open>
  One pass through the loop body, lines 203 to 215; \<open>tp\<close> is \<^verbatim>\<open>self.test_profile\<close> as a
  function of the trial surface temperature.
\<close>

definition loop_body ::
  "(real \<Rightarrow> error + real list \<times> real) \<Rightarrow> loop_state \<Rightarrow> error + loop_state"
where
  "loop_body tp st =
     (case secant (surfaceTneg st) (surfaceTpos st) (diffneg st) (diffpos st) of
        Inl e \<Rightarrow> Inl e
      | Inr sT \<Rightarrow>
     (case tp sT of
        Inl e \<Rightarrow> Inl e
      | Inr (Tc, d) \<Rightarrow>
          Inr (if d > 0
               then st\<lparr>surfaceT := sT, T_con := Tc, diffpos := d, surfaceTpos := sT,
                        counter := counter st + 1\<rparr>
               else st\<lparr>surfaceT := sT, T_con := Tc, diffneg := d, surfaceTneg := sT,
                        counter := counter st + 1\<rparr>)))"

definition no_profile_found :: error where
  "no_profile_found = ValueError ''No energy conserving convective profile can be found''"

partial_function (option) adjustment_loop ::
  "(real \<Rightarrow> error + real list \<times> real) \<Rightarrow> real \<Rightarrow> loop_state \<Rightarrow> (error + loop_state) option"
where
  "adjustment_loop tp near_zero st =
     (if loop_cond near_zero st then
        (case loop_body tp st of
           Inl e \<Rightarrow> Some (Inl e)
         | Inr st' \<Rightarrow>
             if counter st' = 100 then Some (Inl no_profile_found)
             else adjustment_loop tp near_zero st')
      else Some (Inr st))"

text \<open>
  The states at the head of the loop: the state the loop is entered with, and every
  state that a pass through the body leaves without reaching the cap.
\<close>

inductive loop_reach ::
  "(real \<Rightarrow> error + real list \<times> real) \<Rightarrow> real \<Rightarrow> loop_state \<Rightarrow> loop_state \<Rightarrow> bool"
  for tp :: "real \<Rightarrow> error + real list \<times> real" and near_zero :: real and st0 :: loop_state
where
  reach_init: "loop_reach tp near_zero st0 st0"
| reach_step:
    "loop_reach tp near_zero st0 st \<Longrightarrow> loop_cond near_zero st \<Longrightarrow> loop_body tp st = Inr st'
       \<Longrightarrow> counter st' \<noteq> 100 \<Longrightarrow> loop_reach tp near_zero st0 st'"

code_pred loop_reach .

text \<open>
  Lines 152 to 196 of \<^verbatim>\<open>convective_adjustment\<close>: either one of the three early returns,
  or the lapse rate in K/Pa together with the state the loop is entered with.
\<close>

datatype prelude = Return "real list" real | Enter "real list" loop_state

definition adjustment_prelude ::
  "externals \<Rightarrow> scheme \<Rightarrow> real list \<Rightarrow> real list \<Rightarrow> real list \<Rightarrow> real list \<Rightarrow> surface \<Rightarrow> real
     \<Rightarrow> error + prelude"
where
  "adjustment_prelude ext sch p phlev T_rad lapse s timestep =
     (let near_zero = energy_threshold s in
      case lapse_Pa ext p phlev T_rad lapse of
        Inl e \<Rightarrow> Inl e
      | Inr lp \<Rightarrow>
     (case test_profile ext sch T_rad p phlev s (temperature s) lp timestep of
        Inl e \<Rightarrow> Inl e
      | Inr (Tc, dpos) \<Rightarrow>
          if fixed_temperature s then Inr (Return Tc (temperature s))
          else if dpos < near_zero then Inr (Return Tc (temperature s))
          else
            (case np_min T_rad of
               Inl e \<Rightarrow> Inl e
             | Inr Tneg \<Rightarrow>
            (case heat_capacity s of
               None \<Rightarrow> Inl KeyError
             | Some eff_Cp_s \<Rightarrow>
                 (let dneg = eff_Cp_s * (Tneg - temperature s) in
                  if \<bar>dneg\<bar> < near_zero then Inr (Return Tc Tneg)
                  else
                    (case secant Tneg (temperature s) dneg dpos of
                       Inl e \<Rightarrow> Inl e
                     | Inr sT \<Rightarrow>
                         Inr (Enter lp
                           \<lparr>surfaceTpos = temperature s, diffpos = dpos, surfaceTneg = Tneg,
                            diffneg = dneg, surfaceT = sT, T_con = Tc, counter = 0\<rparr>)))))))"

definition convective_adjustment ::
  "externals \<Rightarrow> scheme \<Rightarrow> real list \<Rightarrow> real list \<Rightarrow> real list \<Rightarrow> real list \<Rightarrow> surface \<Rightarrow> real
     \<Rightarrow> (error + real list \<times> real) option"
where
  "convective_adjustment ext sch p phlev T_rad lapse s timestep =
     (case adjustment_prelude ext sch p phlev T_rad lapse s timestep of
        Inl e \<Rightarrow> Some (Inl e)
      | Inr (Return Tc Ts) \<Rightarrow> Some (Inr (Tc, Ts))
      | Inr (Enter lp st0) \<Rightarrow>
          (case adjustment_loop (\<lambda>sT. test_profile ext sch T_rad p phlev s sT lp timestep)
                  (energy_threshold s) st0 of
             None \<Rightarrow> None
           | Some (Inl e) \<Rightarrow> Some (Inl e)
           | Some (Inr st) \<Rightarrow> Some (Inr (T_con st, surfaceT st))))"

section \<open>Convective-top diagnostics and the driver\<close>

text \<open>The variables \<^verbatim>\<open>create_variable\<close> stores; \<open>None\<close> stands for \<^verbatim>\<open>np.nan\<close>.\<close>

record diagnostics =
  convective_heating_rate :: "real list"
  convective_top_plev :: "real option"
  convective_top_temperature :: "real option"
  convective_top_index :: "real option"

definition calculate_convective_top ::
  "externals \<Rightarrow> real list \<Rightarrow> real list \<Rightarrow> real list \<Rightarrow> real \<Rightarrow> real \<Rightarrow> error + diagnostics"
where
  "calculate_convective_top ext T_rad Tc p timestep lm =
     (if timestep = 0 \<and> T_rad \<noteq> [] \<and> Tc \<noteq> [] then Inl NonFinite
      else
        let convective_heating = map2 (\<lambda>a b. (a - b) / timestep) Tc T_rad in
        if \<exists>h \<in> set convective_heating. h > lm then
          (case interp_variable ext p convective_heating lm of
             Inl e \<Rightarrow> Inl e
           | Inr contop_p \<Rightarrow>
          (case interp_variable ext Tc convective_heating lm of
             Inl e \<Rightarrow> Inl e
           | Inr contop_T \<Rightarrow>
          (case interp_variable ext (map real [0..<length p]) convective_heating lm of
             Inl e \<Rightarrow> Inl e
           | Inr contop_index \<Rightarrow>
               Inr \<lparr>convective_heating_rate = convective_heating,
                    convective_top_plev = Some contop_p,
                    convective_top_temperature = Some contop_T,
                    convective_top_index = Some contop_index\<rparr>)))
        else
          Inr \<lparr>convective_heating_rate = convective_heating,
               convective_top_plev = None,
               convective_top_temperature = None,
               convective_top_index = None\<rparr>)"

text \<open>
  \<^verbatim>\<open>HardAdjustment.stabilize\<close>, which \<^verbatim>\<open>RelaxedAdjustment\<close> inherits: the atmosphere and
  the surface are updated in place after the diagnostics, with the default
  \<^verbatim>\<open>lim=0.2\<close>.
\<close>

definition stabilize ::
  "externals \<Rightarrow> scheme \<Rightarrow> atmosphere \<Rightarrow> real list \<Rightarrow> surface \<Rightarrow> real
     \<Rightarrow> (error + atmosphere \<times> surface \<times> diagnostics) option"
where
  "stabilize ext sch atm lapse s timestep =
     (case convective_adjustment ext sch (atm_plev atm) (atm_phlev atm) (atm_T atm) lapse s timestep of
        None \<Rightarrow> None
      | Some (Inl e) \<Rightarrow> Some (Inl e)
      | Some (Inr (T_new, T_s_new)) \<Rightarrow>
          (case calculate_convective_top ext (atm_T atm) T_new (atm_plev atm) timestep (2 / 10) of
             Inl e \<Rightarrow> Some (Inl e)
           | Inr diag \<Rightarrow>
               Some (Inr (atm\<lparr>atm_T := T_new\<rparr>, s\<lparr>temperature := T_s_new\<rparr>, diag))))"

section \<open>Humidity policies\<close>

text \<open>
  Modelled from the spec: \<^verbatim>\<open>integrate_vmr\<close> of \<^verbatim>\<open>konrad.physics\<close> is not among the source
  files. The glossary gives the integrated water vapor as the vertical integral of the
  water-vapor mixing ratio weighted by pressure thickness. How the thickness of each
  level follows from the pressure levels is not stated, so it is the parameter \<open>w\<close>.
\<close>

definition integrate_vmr :: "(real list \<Rightarrow> real list) \<Rightarrow> real list \<Rightarrow> real list \<Rightarrow> real" where
  "integrate_vmr w vmr pressure = sum_list (map2 (\<lambda>v d. v * d) vmr (w pressure))"

text \<open>
  The humidity handlers. \<^verbatim>\<open>FixedRH.__init__\<close> fills in \<^verbatim>\<open>VerticallyUniform()\<close> and
  \<^verbatim>\<open>ColdPointCoupling()\<close> for a missing shape function and stratosphere coupling;
  \<^verbatim>\<open>FixedIWV.__init__\<close> adds the target \<^verbatim>\<open>IWV\<close>.
\<close>

datatype 'f rh_function = VerticallyUniform | GivenRH 'f

datatype 'c coupling = ColdPointCoupling | GivenCoupling 'c

record ('f, 'c) FixedIWV =
  rh_func :: "'f rh_function"
  stratosphere_coupling :: "'c coupling"
  IWV :: "real option"

definition FixedIWV_init :: "'f option \<Rightarrow> 'c option \<Rightarrow> real option \<Rightarrow> ('f, 'c) FixedIWV" where
  "FixedIWV_init rh sc target =
     \<lparr>rh_func = (case rh of None \<Rightarrow> VerticallyUniform | Some f \<Rightarrow> GivenRH f),
      stratosphere_coupling = (case sc of None \<Rightarrow> ColdPointCoupling | Some c \<Rightarrow> GivenCoupling c),
      IWV = target\<rparr>"

text \<open>\<^verbatim>\<open>not self.IWV\<close>: true for \<^verbatim>\<open>None\<close> and for a zero.\<close>

definition py_not :: "real option \<Rightarrow> bool" where
  "py_not v \<longleftrightarrow> (case v of None \<Rightarrow> True | Some x \<Rightarrow> x = 0)"

definition no_changed_IWV :: string where
  "no_changed_IWV = ''no changed IWV. Same as fixed RH calculation''"

text \<open>
  \<^verbatim>\<open>FixedIWV.rescale_IWV\<close>: the handler with its target, the atmosphere with the rescaled
  vapor field and the warnings emitted. The division of the vapor array by a zero
  integral yields \<open>nan\<close> or \<open>inf\<close> entries. The \<^verbatim>\<open>print\<close> of the two values changes no
  state and is left out.
\<close>

definition rescale_IWV ::
  "(real list \<Rightarrow> real list) \<Rightarrow> ('f, 'c) FixedIWV \<Rightarrow> atmosphere
     \<Rightarrow> error + ('f, 'c) FixedIWV \<times> atmosphere \<times> string list"
where
  "rescale_IWV w self atm =
     (let IWV_curr = integrate_vmr w (atm_H2O atm) (atm_plev atm);
          self' = (if py_not (IWV self) then self\<lparr>IWV := Some IWV_curr\<rparr> else self);
          warned = (if py_not (IWV self) then [no_changed_IWV] else [])
      in if IWV_curr = 0 \<and> atm_H2O atm \<noteq> [] then Inl NonFinite
         else Inr (self',
                   atm\<lparr>atm_H2O := map (\<lambda>v. v * the (IWV self') / IWV_curr) (atm_H2O atm)\<rparr>,
                   warned))"

text \<open>
  \<^verbatim>\<open>ChangeRHwithp.__init__\<close>. Its guard reads the name \<^verbatim>\<open>f_T\<close>, which is neither a
  parameter nor a local of the method, so Python looks it up among the globals of the
  module. \<open>globals\<close> gives the truth value of each global name that is bound. The
  attribute \<^verbatim>\<open>_f_p\<close> ends as the argument \<^verbatim>\<open>f_p\<close> as it was passed, or as
  \<^verbatim>\<open>lambda x: 0\<close>.
\<close>

datatype 'g perturbation = Passed "'g option" | LambdaZero

definition lookup_global :: "(string \<Rightarrow> bool option) \<Rightarrow> string \<Rightarrow> error + bool" where
  "lookup_global globals name =
     (case globals name of None \<Rightarrow> Inl (NameError name) | Some b \<Rightarrow> Inr b)"

definition ChangeRHwithp_init ::
  "(string \<Rightarrow> bool option) \<Rightarrow> 'f option \<Rightarrow> 'c option \<Rightarrow> 'g option \<Rightarrow> real option
     \<Rightarrow> error + ('f, 'c) FixedIWV \<times> 'g perturbation"
where
  "ChangeRHwithp_init globals rh sc f_p target =
     (let self = FixedIWV_init rh sc target in
      case lookup_global globals ''f_T'' of
        Inl e \<Rightarrow> Inl e
      | Inr b \<Rightarrow> Inr (self, if b then Passed f_p else LambdaZero))"

text \<open>
  The names that \<^verbatim>\<open>konrad/humidity/__init__.py\<close> binds at module level by its own
  statements; \<open>star\<close> lists the names its two star imports add.
\<close>

definition module_globals :: "string list \<Rightarrow> string \<Rightarrow> bool option" where
  "module_globals star name =
     (if name \<in> set ([''logging'', ''warnings'', ''Component'', ''prefix_dict_keys'',
                      ''relative_humidity2vmr'', ''vmr2relative_humidity'', ''integrate_vmr'',
                      ''logger'', ''FixedRH'', ''FixedIWV'', ''ChangeRHwithT'', ''ChangeRHwithp'',
                      ''FixedVMR''] @ star)
      then Some True else None)"

section \<open>Instances of the external collaborators for the examples\<close>

text \<open>
  An interpolation for the examples: linear between two points, and refusing a value
  outside their range as \<^verbatim>\<open>interp1d\<close> does when no fill value is given.
\<close>

definition two_point_interp :: "real list \<Rightarrow> real list \<Rightarrow> real \<Rightarrow> error + real" where
  "two_point_interp xs ys v =
     (case (xs, ys) of
        ([x0, x1], [y0, y1]) \<Rightarrow>
          if v < min x0 x1 \<or> max x0 x1 < v
          then Inl (ValueError ''A value in x_new is outside the interpolation range'')
          else if x0 = x1 then Inl NonFinite
          else Inr (y0 + (v - x0) * (y1 - y0) / (x1 - x0))
      | _ \<Rightarrow> Inl (ValueError ''x and y arrays must be equal in length''))"

text \<open>
  Unit constants and an air of density one on every level, so that the lapse rate in
  K/Pa is the negated lapse rate given.
\<close>

definition unit_externals :: externals where
  "unit_externals =
     \<lparr>isobaric_mass_heat_capacity = 1, const_g = 1, earth_standard_gravity = 1,
      density = (\<lambda>p T. map (\<lambda>_. 1) p),
      interp1d_extrapolate = (\<lambda>x y xnew. Inr (map (\<lambda>_. 1) xnew)),
      interp1d = two_point_interp\<rparr>"

definition slab :: "real \<Rightarrow> real \<Rightarrow> surface" where
  "slab Ts hc = \<lparr>temperature = Ts, heat_capacity = Some hc, fixed_temperature = False\<rparr>"

definition fixed_surface :: "real \<Rightarrow> surface" where
  "fixed_surface Ts = \<lparr>temperature = Ts, heat_capacity = None, fixed_temperature = True\<rparr>"

text \<open>
  The bracket of a column whose imbalance at the upper bound is large against the heat
  capacity of the surface: the upper bound stays, the lower bound creeps upwards by at
  most a fiftieth of a kelvin in each pass.
\<close>

definition slow_bracket :: "loop_state \<Rightarrow> bool" where
  "slow_bracket st \<longleftrightarrow>
     surfaceTpos st = 290 \<and> diffpos st = 5000 \<and> 280 \<le> surfaceTneg st
     \<and> surfaceTneg st \<le> 280 + real (counter st) / 50
     \<and> diffneg st = surfaceTneg st - 290"

section \<open>The loop of the root finder\<close>

lemma loop_body_counter:
  "loop_body tp st = Inr st' \<Longrightarrow> counter st' = counter st + 1"
  by (auto simp: loop_body_def split: sum.splits prod.splits if_splits)

lemma adjustment_loop_step:
  assumes "loop_cond nz st" and "loop_body tp st = Inr st'" and "counter st' \<noteq> 100"
  shows "adjustment_loop tp nz st = adjustment_loop tp nz st'"
  using assms by (subst adjustment_loop.simps) simp

lemma adjustment_loop_cap:
  assumes "loop_cond nz st" and "loop_body tp st = Inr st'" and "counter st' = 100"
  shows "adjustment_loop tp nz st = Some (Inl no_profile_found)"
  using assms by (subst adjustment_loop.simps) simp

lemma adjustment_loop_exit:
  assumes "\<not> loop_cond nz st"
  shows "adjustment_loop tp nz st = Some (Inr st)"
  using assms by (subst adjustment_loop.simps) simp

lemma adjustment_loop_fail:
  assumes "loop_cond nz st" and "loop_body tp st = Inl e"
  shows "adjustment_loop tp nz st = Some (Inl e)"
  using assms by (subst adjustment_loop.simps) simp

text \<open>The loop gives the same result from every state it passes through.\<close>

lemma loop_reach_result:
  "loop_reach tp nz st0 st \<Longrightarrow> adjustment_loop tp nz st0 = adjustment_loop tp nz st"
  by (induction rule: loop_reach.induct) (simp_all add: adjustment_loop_step)

lemma loop_reach_counter:
  "loop_reach tp nz st0 st \<Longrightarrow> counter st0 < 100 \<Longrightarrow> counter st < 100"
  by (induction rule: loop_reach.induct) (auto dest: loop_body_counter)

lemma loop_reach_prepend:
  assumes "loop_reach tp nz st1 st'" and "loop_cond nz st" and "loop_body tp st = Inr st1"
    and "counter st1 \<noteq> 100"
  shows "loop_reach tp nz st st'"
  using assms
proof (induction rule: loop_reach.induct)
  case reach_init
  then show ?case by (metis loop_reach.intros)
next
  case (reach_step st st')
  then show ?case by (metis loop_reach.intros)
qed

text \<open>Entered with fewer than 100 passes counted, the loop ends.\<close>

lemma adjustment_loop_total:
  "counter st < 100 \<Longrightarrow> \<exists>r. adjustment_loop tp nz st = Some r"
proof (induction "100 - counter st" arbitrary: st)
  case 0
  then show ?case by simp
next
  case (Suc n)
  show ?case
  proof (cases "loop_cond nz st")
    case False
    then show ?thesis by (simp add: adjustment_loop_exit)
  next
    case True
    show ?thesis
    proof (cases "loop_body tp st")
      case (Inl e)
      with True show ?thesis by (simp add: adjustment_loop_fail)
    next
      case (Inr st')
      then have c: "counter st' = counter st + 1" by (rule loop_body_counter)
      show ?thesis
      proof (cases "counter st' = 100")
        case True
        with \<open>loop_cond nz st\<close> Inr show ?thesis by (simp add: adjustment_loop_cap)
      next
        case False
        with c Suc.prems Suc.hyps(2) have "n = 100 - counter st'" "counter st' < 100" by auto
        then obtain r where "adjustment_loop tp nz st' = Some r" using Suc.hyps(1) by blast
        with True Inr False show ?thesis by (simp add: adjustment_loop_step)
      qed
    qed
  qed
qed

text \<open>A normal end of the loop is a state at its head where the condition fails.\<close>

lemma adjustment_loop_returns:
  "counter st < 100 \<Longrightarrow> adjustment_loop tp nz st = Some (Inr st')
     \<Longrightarrow> loop_reach tp nz st st' \<and> \<not> loop_cond nz st'"
proof (induction "100 - counter st" arbitrary: st)
  case 0
  then show ?case by simp
next
  case (Suc n)
  show ?case
  proof (cases "loop_cond nz st")
    case False
    with Suc.prems(2) have "st' = st" by (simp add: adjustment_loop_exit)
    with False show ?thesis by (simp add: loop_reach.reach_init)
  next
    case True
    show ?thesis
    proof (cases "loop_body tp st")
      case (Inl e)
      with True Suc.prems(2) show ?thesis by (simp add: adjustment_loop_fail)
    next
      case (Inr st1)
      then have c: "counter st1 = counter st + 1" by (rule loop_body_counter)
      show ?thesis
      proof (cases "counter st1 = 100")
        case True
        with \<open>loop_cond nz st\<close> Inr Suc.prems(2) show ?thesis by (simp add: adjustment_loop_cap)
      next
        case False
        with c Suc.prems Suc.hyps(2) have n: "n = 100 - counter st1" "counter st1 < 100" by auto
        from True Inr False Suc.prems(2) have "adjustment_loop tp nz st1 = Some (Inr st')"
          by (simp add: adjustment_loop_step)
        with n Suc.hyps(1) have "loop_reach tp nz st1 st' \<and> \<not> loop_cond nz st'" by blast
        with True Inr False show ?thesis by (blast intro: loop_reach_prepend)
      qed
    qed
  qed
qed

text \<open>
  What a pass leaves: the profile and the imbalance of the trial temperature, the
  imbalance stored in the bound of its sign, the other bound as it was.
\<close>

lemma loop_body_last:
  assumes "loop_cond nz st" and "loop_body tp st = Inr st'"
  shows "\<exists>d. tp (surfaceT st') = Inr (T_con st', d) \<and>
           ((d > 0 \<and> diffpos st' = d \<and> - diffneg st' \<ge> nz) \<or>
            (d \<le> 0 \<and> diffneg st' = d \<and> diffpos st' \<ge> nz))"
  using assms
  by (auto simp: loop_body_def loop_cond_def split: sum.splits prod.splits if_splits)

lemma loop_exit_imbalance:
  assumes "loop_reach tp nz st0 st" and "loop_cond nz st0" and "\<not> loop_cond nz st"
  shows "\<exists>d. tp (surfaceT st) = Inr (T_con st, d) \<and> \<bar>d\<bar> < nz"
  using assms
proof (cases rule: loop_reach.cases)
  case reach_init
  with assms show ?thesis by simp
next
  case (reach_step stp)
  then obtain d where d: "tp (surfaceT st) = Inr (T_con st, d)"
     "(d > 0 \<and> diffpos st = d \<and> - diffneg st \<ge> nz) \<or>
      (d \<le> 0 \<and> diffneg st = d \<and> diffpos st \<ge> nz)"
    using loop_body_last by blast
  with assms(3) have "\<bar>d\<bar> < nz" by (auto simp: loop_cond_def)
  with d show ?thesis by blast
qed

text \<open>
  A loop is entered only for a surface that is not of fixed temperature and has a heat
  capacity, with no pass counted and an upper imbalance of at least the threshold.
\<close>

lemma prelude_enter:
  assumes "adjustment_prelude ext sch p phlev T_rad lapse s timestep = Inr (Enter lp st0)"
  shows "\<not> fixed_temperature s" and "\<exists>hc. heat_capacity s = Some hc"
    and "counter st0 = 0" and "energy_threshold s \<le> diffpos st0"
    and "lapse_Pa ext p phlev T_rad lapse = Inr lp"
  using assms
  by (auto simp: adjustment_prelude_def Let_def split: sum.splits prod.splits if_splits option.splits)

lemma test_profile_imbalance:
  assumes "test_profile ext sch T_rad p phlev s sT lp timestep = Inr (Tc, d)"
    and "\<not> fixed_temperature s" and "heat_capacity s = Some hc"
  shows "energy_difference ext Tc T_rad sT (temperature s) (np_diff phlev) hc = Inr d"
  using assms
  by (cases sch)
     (auto simp: HardAdjustment_test_profile_def RelaxedAdjustment_test_profile_def Let_def
        split: sum.splits if_splits)

section \<open>Worked columns\<close>

text \<open>
  One level between the half levels 950 and 850 at a radiative temperature of 280 K, a
  surface at 290 K with heat capacity 100: the root finder ends after two passes.
\<close>

lemmas example_eval =
  unit_externals_def slab_def lapse_Pa_def np_divide_def HardAdjustment_test_profile_def
  adiabat_def dp_lapse_def np_diff_def np_cumsum_def convective_top_cut_def
  energy_difference_def energy_threshold_def np_min_def secant_def Let_def

lemma two_pass_prelude:
  "adjustment_prelude unit_externals Hard [900] [950, 850] [280] [1 / 10] (slab 290 100) 1 =
     Inr (Enter [- 1 / 10]
       \<lparr>surfaceTpos = 290, diffpos = 500, surfaceTneg = 280, diffneg = - 1000,
        surfaceT = 860 / 3, T_con = [285], counter = 0\<rparr>)"
  by (simp add: adjustment_prelude_def example_eval)

lemma two_pass_first:
  "loop_body (\<lambda>sT. test_profile unit_externals Hard [280] [900] [950, 850] (slab 290 100) sT [- 1 / 10] 1)
     \<lparr>surfaceTpos = 290, diffpos = 500, surfaceTneg = 280, diffneg = - 1000,
      surfaceT = 860 / 3, T_con = [285], counter = 0\<rparr> =
   Inr \<lparr>surfaceTpos = 290, diffpos = 500, surfaceTneg = 860 / 3, diffneg = - 500 / 3,
        surfaceT = 860 / 3, T_con = [845 / 3], counter = 1\<rparr>"
  by (simp add: loop_body_def example_eval)

lemma two_pass_second:
  "loop_body (\<lambda>sT. test_profile unit_externals Hard [280] [900] [950, 850] (slab 290 100) sT [- 1 / 10] 1)
     \<lparr>surfaceTpos = 290, diffpos = 500, surfaceTneg = 860 / 3, diffneg = - 500 / 3,
        surfaceT = 860 / 3, T_con = [845 / 3], counter = 1\<rparr> =
   Inr \<lparr>surfaceTpos = 290, diffpos = 500, surfaceTneg = 575 / 2, diffneg = 0,
        surfaceT = 575 / 2, T_con = [565 / 2], counter = 2\<rparr>"
  by (simp add: loop_body_def example_eval)

lemma two_pass_result:
  "convective_adjustment unit_externals Hard [900] [950, 850] [280] [1 / 10] (slab 290 100) 1 =
     Some (Inr ([565 / 2], 575 / 2))"
proof -
  let ?tp = "\<lambda>sT. test_profile unit_externals Hard [280] [900] [950, 850] (slab 290 100) sT [- 1 / 10] 1"
  let ?nz = "energy_threshold (slab 290 100)"
  let ?st0 = "\<lparr>surfaceTpos = 290, diffpos = 500, surfaceTneg = 280, diffneg = - 1000,
        surfaceT = 860 / 3, T_con = [285], counter = 0\<rparr>"
  let ?st1 = "\<lparr>surfaceTpos = 290, diffpos = 500, surfaceTneg = 860 / 3, diffneg = - 500 / 3,
        surfaceT = 860 / 3, T_con = [845 / 3], counter = 1\<rparr>"
  let ?st2 = "\<lparr>surfaceTpos = 290, diffpos = 500, surfaceTneg = 575 / 2, diffneg = 0,
        surfaceT = 575 / 2, T_con = [565 / 2], counter = 2\<rparr>"
  have "adjustment_loop ?tp ?nz ?st0 = adjustment_loop ?tp ?nz ?st1"
    by (rule adjustment_loop_step [OF _ two_pass_first])
       (simp_all add: loop_cond_def energy_threshold_def slab_def)
  also have "\<dots> = adjustment_loop ?tp ?nz ?st2"
    by (rule adjustment_loop_step [OF _ two_pass_second])
       (simp_all add: loop_cond_def energy_threshold_def slab_def)
  also have "\<dots> = Some (Inr ?st2)"
    by (rule adjustment_loop_exit) (simp add: loop_cond_def energy_threshold_def slab_def)
  finally show ?thesis
    by (simp add: convective_adjustment_def two_pass_prelude)
qed

text \<open>
  One level between the half levels 1000 and 0, a surface at 290 K with heat capacity 1:
  every trial temperature of the first hundred passes stays below the kink of the
  imbalance at 285 K.
\<close>

lemma slow_prelude:
  "adjustment_prelude unit_externals Hard [500] [1000, 0] [280] [1 / 100] (slab 290 1) 1 =
     Inr (Enter [- 1 / 100]
       \<lparr>surfaceTpos = 290, diffpos = 5000, surfaceTneg = 280, diffneg = - 10,
        surfaceT = 280 + 100 / 5010, T_con = [285], counter = 0\<rparr>)"
  by (simp add: adjustment_prelude_def example_eval)

lemma slow_trial:
  assumes "sT \<le> 285"
  shows "test_profile unit_externals Hard [280] [500] [1000, 0] (slab 290 1) sT [- 1 / 100] 1
           = Inr ([280], sT - 290)"
  using assms by (simp add: example_eval)

lemma slow_secant:
  assumes "280 \<le> x" and "x \<le> 282"
  shows "\<exists>sT. secant x 290 (x - 290) 5000 = Inr sT \<and> x \<le> sT \<and> sT \<le> x + 1 / 50"
proof -
  define a where "a = 290 - x"
  have a: "8 \<le> a" "a \<le> 10" using assms by (simp_all add: a_def)
  then have "a * a \<le> 10 * 10" by (intro mult_mono) simp_all
  then have sq: "a * a \<le> 100" by simp
  have D: "0 < a + 5000" using a by simp
  have "a * a / (a + 5000) \<le> 1 / 50"
    using sq a D by (simp add: field_simps)
  moreover have "0 \<le> a * a / (a + 5000)" using D by simp
  moreover have "secant x 290 (x - 290) 5000 = Inr (x + a * a / (a + 5000))"
    using D by (simp add: secant_def a_def)
  ultimately show ?thesis by simp
qed

lemma slow_step:
  assumes "slow_bracket st" and "counter st < 100"
  shows "loop_cond (energy_threshold (slab 290 1)) st
       \<and> (\<exists>st'. loop_body (\<lambda>sT. test_profile unit_externals Hard [280] [500] [1000, 0]
                   (slab 290 1) sT [- 1 / 100] 1) st = Inr st'
              \<and> slow_bracket st' \<and> counter st' = counter st + 1)"
proof -
  let ?x = "surfaceTneg st"
  from assms have x: "280 \<le> ?x" "?x \<le> 282" and rest: "surfaceTpos st = 290"
    "diffpos st = 5000" "diffneg st = ?x - 290"
    and k: "?x \<le> 280 + real (counter st) / 50"
    by (simp_all add: slow_bracket_def)
  from x obtain sT where sT: "secant ?x 290 (?x - 290) 5000 = Inr sT" "?x \<le> sT" "sT \<le> ?x + 1 / 50"
    using slow_secant by blast
  then have "sT \<le> 285" using x by simp
  then have tp: "test_profile unit_externals Hard [280] [500] [1000, 0] (slab 290 1) sT [- 1 / 100] 1
           = Inr ([280], sT - 290)" by (rule slow_trial)
  have neg: "\<not> sT - 290 > 0" using \<open>sT \<le> 285\<close> by simp
  have c: "loop_cond (energy_threshold (slab 290 1)) st"
    using x rest by (simp add: loop_cond_def energy_threshold_def slab_def)
  let ?st' = "st\<lparr>surfaceT := sT, T_con := [280], diffneg := sT - 290, surfaceTneg := sT,
                counter := counter st + 1\<rparr>"
  have b: "loop_body (\<lambda>sT. test_profile unit_externals Hard [280] [500] [1000, 0]
                   (slab 290 1) sT [- 1 / 100] 1) st = Inr ?st'"
    using sT(1) tp neg rest by (simp add: loop_body_def)
  have "slow_bracket ?st'"
    using rest x sT(2,3) k by (simp add: slow_bracket_def field_simps)
  with c b show ?thesis by simp
qed

lemma slow_reach:
  "k \<le> 99 \<Longrightarrow>
   \<exists>st. loop_reach (\<lambda>sT. test_profile unit_externals Hard [280] [500] [1000, 0]
                   (slab 290 1) sT [- 1 / 100] 1) (energy_threshold (slab 290 1))
           \<lparr>surfaceTpos = 290, diffpos = 5000, surfaceTneg = 280, diffneg = - 10,
            surfaceT = 280 + 100 / 5010, T_con = [285], counter = 0\<rparr> st
        \<and> slow_bracket st \<and> counter st = k"
proof (induction k)
  case 0
  have "slow_bracket \<lparr>surfaceTpos = 290, diffpos = 5000, surfaceTneg = 280, diffneg = - 10,
            surfaceT = 280 + 100 / 5010, T_con = [285], counter = 0\<rparr>"
    by (simp add: slow_bracket_def)
  then show ?case by (auto intro: loop_reach.reach_init)
next
  case (Suc k)
  then obtain st where st: "loop_reach (\<lambda>sT. test_profile unit_externals Hard [280] [500] [1000, 0]
                   (slab 290 1) sT [- 1 / 100] 1) (energy_threshold (slab 290 1))
           \<lparr>surfaceTpos = 290, diffpos = 5000, surfaceTneg = 280, diffneg = - 10,
            surfaceT = 280 + 100 / 5010, T_con = [285], counter = 0\<rparr> st"
     "slow_bracket st" "counter st = k"
    by auto
  with Suc.prems have "counter st < 100" by simp
  with st(2) obtain st' where st': "loop_cond (energy_threshold (slab 290 1)) st"
    "loop_body (\<lambda>sT. test_profile unit_externals Hard [280] [500] [1000, 0]
                   (slab 290 1) sT [- 1 / 100] 1) st = Inr st'"
    "slow_bracket st'" "counter st' = counter st + 1"
    using slow_step by blast
  with st(3) Suc.prems have "counter st' \<noteq> 100" by simp
  with st(1) st'(1,2) have "loop_reach (\<lambda>sT. test_profile unit_externals Hard [280] [500] [1000, 0]
                   (slab 290 1) sT [- 1 / 100] 1) (energy_threshold (slab 290 1))
           \<lparr>surfaceTpos = 290, diffpos = 5000, surfaceTneg = 280, diffneg = - 10,
            surfaceT = 280 + 100 / 5010, T_con = [285], counter = 0\<rparr> st'"
    by (rule loop_reach.reach_step)
  with st' st(3) show ?case by auto
qed

section \<open>Claims on the root finder\<close>

text \<open>
  Claim C1, as the code has it. When \<^verbatim>\<open>convective_adjustment\<close> enters its loop with the
  loop condition true, so that at least one pass runs, and returns normally, then the
  profile and the surface temperature it returns are those of the last trial, and the
  energy imbalance of that pair is below the threshold in magnitude, the threshold being
  the heat capacity of the surface divided by \<open>10\<^sup>1\<^sup>3\<close>.
\<close>

theorem converged_imbalance_below_threshold:
  assumes "adjustment_prelude ext sch p phlev T_rad lapse s timestep = Inr (Enter lp st0)"
    and "loop_cond (energy_threshold s) st0"
    and "convective_adjustment ext sch p phlev T_rad lapse s timestep = Some (Inr (Tc, Ts))"
  shows "\<exists>hc d. heat_capacity s = Some hc
           \<and> test_profile ext sch T_rad p phlev s Ts lp timestep = Inr (Tc, d)
           \<and> energy_difference ext Tc T_rad Ts (temperature s) (np_diff phlev) hc = Inr d
           \<and> \<bar>d\<bar> < hc / 10 ^ 13"
proof -
  let ?tp = "\<lambda>sT. test_profile ext sch T_rad p phlev s sT lp timestep"
  let ?nz = "energy_threshold s"
  from prelude_enter [OF assms(1)]
  obtain hc where hc: "heat_capacity s = Some hc" and nf: "\<not> fixed_temperature s"
    and c0: "counter st0 = 0"
    by blast
  from assms(1,3) obtain st where st: "adjustment_loop ?tp ?nz st0 = Some (Inr st)"
    and res: "Tc = T_con st" "Ts = surfaceT st"
    by (auto simp: convective_adjustment_def split: option.splits sum.splits)
  from c0 st have "loop_reach ?tp ?nz st0 st" "\<not> loop_cond ?nz st"
    using adjustment_loop_returns [of st0 ?tp ?nz st] by simp_all
  with assms(2) obtain d where d: "?tp (surfaceT st) = Inr (T_con st, d)" "\<bar>d\<bar> < ?nz"
    using loop_exit_imbalance by blast
  from d(1) nf hc have "energy_difference ext (T_con st) T_rad (surfaceT st) (temperature s)
      (np_diff phlev) hc = Inr d"
    by (rule test_profile_imbalance)
  with d hc res show ?thesis by (auto simp: energy_threshold_def)
qed

theorem converged_imbalance_witness:
  "\<exists>d. test_profile unit_externals Hard [280] [900] [950, 850] (slab 290 100) (575 / 2) [- 1 / 10] 1
          = Inr ([565 / 2], d)
       \<and> energy_difference unit_externals [565 / 2] [280] (575 / 2) 290 (np_diff [950, 850]) 100 = Inr d
       \<and> \<bar>d\<bar> < 100 / 10 ^ 13"
proof -
  have c: "loop_cond (energy_threshold (slab 290 100))
     \<lparr>surfaceTpos = 290, diffpos = 500, surfaceTneg = 280, diffneg = - 1000,
      surfaceT = 860 / 3, T_con = [285], counter = 0\<rparr>"
    by (simp add: loop_cond_def energy_threshold_def slab_def)
  from converged_imbalance_below_threshold [OF two_pass_prelude c two_pass_result]
  obtain hc d where h: "heat_capacity (slab 290 100) = Some hc"
    "test_profile unit_externals Hard [280] [900] [950, 850] (slab 290 100) (575 / 2) [- 1 / 10] 1
       = Inr ([565 / 2], d)"
    "energy_difference unit_externals [565 / 2] [280] (575 / 2) (temperature (slab 290 100))
       (np_diff [950, 850]) hc = Inr d"
    "\<bar>d\<bar> < hc / 10 ^ 13"
    by blast
  from h(1) have "hc = 100" by (simp add: slab_def)
  moreover have "temperature (slab 290 100) = 290" by (simp add: slab_def)
  ultimately show ?thesis using h(2,3,4) by auto
qed

text \<open>
  Claim C1 as stated fails where the loop makes no pass. With the coldest radiative
  temperature above the surface temperature the lower imbalance is positive, the loop
  condition is false at once, and the call returns the profile built at the old surface
  temperature together with the first secant estimate (the workaround that initialises
  \<^verbatim>\<open>surfaceT\<close> before the loop). The imbalance of that pair is far above the threshold.
\<close>

theorem zero_pass_counterexample:
  "adjustment_prelude unit_externals Hard [900] [950, 850] [300] [- 1] (slab 290 1) 1 =
     Inr (Enter [1]
       \<lparr>surfaceTpos = 290, diffpos = 4000, surfaceTneg = 300, diffneg = 10,
        surfaceT = 300 + 10 / 399, T_con = [340], counter = 0\<rparr>)
   \<and> convective_adjustment unit_externals Hard [900] [950, 850] [300] [- 1] (slab 290 1) 1 =
       Some (Inr ([340], 300 + 10 / 399))
   \<and> energy_difference unit_externals [340] [300] (300 + 10 / 399) 290 (np_diff [950, 850]) 1 =
       Inr (4010 + 10 / 399)
   \<and> \<not> \<bar>4010 + 10 / 399 :: real\<bar> \<le> 1 / 10 ^ 13"
proof -
  have p: "adjustment_prelude unit_externals Hard [900] [950, 850] [300] [- 1] (slab 290 1) 1 =
     Inr (Enter [1]
       \<lparr>surfaceTpos = 290, diffpos = 4000, surfaceTneg = 300, diffneg = 10,
        surfaceT = 300 + 10 / 399, T_con = [340], counter = 0\<rparr>)"
    by (simp add: adjustment_prelude_def example_eval)
  have "\<not> loop_cond (energy_threshold (slab 290 1))
       \<lparr>surfaceTpos = 290, diffpos = 4000, surfaceTneg = 300, diffneg = 10,
        surfaceT = 300 + 10 / 399, T_con = [340], counter = 0\<rparr>"
    by (simp add: loop_cond_def energy_threshold_def slab_def)
  then have c: "convective_adjustment unit_externals Hard [900] [950, 850] [300] [- 1] (slab 290 1) 1 =
       Some (Inr ([340], 300 + 10 / 399))"
    by (simp add: convective_adjustment_def p adjustment_loop_exit)
  have e: "energy_difference unit_externals [340] [300] (300 + 10 / 399) 290 (np_diff [950, 850]) 1 =
       Inr (4010 + 10 / 399)"
    by (simp add: example_eval)
  have "\<not> \<bar>4010 + 10 / 399 :: real\<bar> \<le> 1 / 10 ^ 13" by simp
  with p c e show ?thesis by blast
qed

text \<open>
  Claim C2. A call that enters the loop ends. At the head of the loop fewer than 100
  passes are done, so the body never runs more than 100 times. When the condition
  still holds after 99 passes and the hundredth pass computes its trial profile, the
  call raises \<^verbatim>\<open>ValueError\<close> with the message that no energy conserving convective
  profile can be found; the error is the result of \<^verbatim>\<open>convective_adjustment\<close> itself.
\<close>

theorem iteration_cap:
  assumes "adjustment_prelude ext sch p phlev T_rad lapse s timestep = Inr (Enter lp st0)"
  defines "tp \<equiv> \<lambda>sT. test_profile ext sch T_rad p phlev s sT lp timestep"
    and "nz \<equiv> energy_threshold s"
  shows "(\<exists>r. convective_adjustment ext sch p phlev T_rad lapse s timestep = Some r)
       \<and> (\<forall>st. loop_reach tp nz st0 st \<longrightarrow> counter st < 100)
       \<and> (\<forall>st st'. loop_reach tp nz st0 st \<and> counter st = 99 \<and> loop_cond nz st
              \<and> loop_body tp st = Inr st'
            \<longrightarrow> convective_adjustment ext sch p phlev T_rad lapse s timestep
                  = Some (Inl (ValueError ''No energy conserving convective profile can be found'')))"
proof -
  have c0: "counter st0 = 0" using prelude_enter(3) [OF assms(1)] .
  then obtain r where r: "adjustment_loop tp nz st0 = Some r"
    using adjustment_loop_total [of st0 tp nz] by auto
  with assms(1) have 1: "\<exists>r. convective_adjustment ext sch p phlev T_rad lapse s timestep = Some r"
    by (auto simp: convective_adjustment_def tp_def nz_def split: sum.splits)
  have 2: "\<forall>st. loop_reach tp nz st0 st \<longrightarrow> counter st < 100"
    using c0 loop_reach_counter [of tp nz st0] by simp
  have 3: "convective_adjustment ext sch p phlev T_rad lapse s timestep
         = Some (Inl (ValueError ''No energy conserving convective profile can be found''))"
    if "loop_reach tp nz st0 st" "counter st = 99" "loop_cond nz st" "loop_body tp st = Inr st'"
    for st st'
  proof -
    from that(4) have "counter st' = counter st + 1" by (rule loop_body_counter)
    with that(2) have "counter st' = 100" by simp
    with that(3,4) have "adjustment_loop tp nz st = Some (Inl no_profile_found)"
      by (rule adjustment_loop_cap)
    with that(1) have "adjustment_loop tp nz st0 = Some (Inl no_profile_found)"
      by (simp add: loop_reach_result)
    with assms(1) show ?thesis
      by (simp add: convective_adjustment_def tp_def nz_def no_profile_found_def)
  qed
  from 1 2 3 show ?thesis by blast
qed

theorem iteration_cap_witness:
  "convective_adjustment unit_externals Hard [500] [1000, 0] [280] [1 / 100] (slab 290 1) 1
     = Some (Inl (ValueError ''No energy conserving convective profile can be found''))"
proof -
  obtain st where st: "loop_reach (\<lambda>sT. test_profile unit_externals Hard [280] [500] [1000, 0]
                   (slab 290 1) sT [- 1 / 100] 1) (energy_threshold (slab 290 1))
           \<lparr>surfaceTpos = 290, diffpos = 5000, surfaceTneg = 280, diffneg = - 10,
            surfaceT = 280 + 100 / 5010, T_con = [285], counter = 0\<rparr> st"
     "slow_bracket st" "counter st = 99"
    using slow_reach [of 99] by auto
  then obtain st' where st': "loop_cond (energy_threshold (slab 290 1)) st"
    "loop_body (\<lambda>sT. test_profile unit_externals Hard [280] [500] [1000, 0]
                   (slab 290 1) sT [- 1 / 100] 1) st = Inr st'"
    using slow_step [of st] by auto
  with st iteration_cap [OF slow_prelude] show ?thesis by blast
qed

text \<open>
  Claim C3. For a threshold that is not negative and a lower imbalance that is not
  positive when the loop is entered, every state at the head of the loop has
  \<open>diffneg \<le> 0 \<le> diffpos\<close>.
\<close>

theorem bracket_invariant:
  assumes "adjustment_prelude ext sch p phlev T_rad lapse s timestep = Inr (Enter lp st0)"
    and "0 \<le> energy_threshold s"
    and "diffneg st0 \<le> 0"
    and "loop_reach (\<lambda>sT. test_profile ext sch T_rad p phlev s sT lp timestep)
           (energy_threshold s) st0 st"
  shows "diffneg st \<le> 0 \<and> 0 \<le> diffpos st"
  using assms(4)
proof (induction rule: loop_reach.induct)
  case reach_init
  have "energy_threshold s \<le> diffpos st0" using prelude_enter(4) [OF assms(1)] .
  with assms(2,3) show ?case by simp
next
  case (reach_step st st')
  then show ?case
    by (auto simp: loop_body_def split: sum.splits prod.splits if_splits)
qed

theorem bracket_invariant_witness:
  "adjustment_prelude unit_externals Hard [900] [950, 850] [280] [1 / 10] (slab 290 100) 1 =
     Inr (Enter [- 1 / 10]
       \<lparr>surfaceTpos = 290, diffpos = 500, surfaceTneg = 280, diffneg = - 1000,
        surfaceT = 860 / 3, T_con = [285], counter = 0\<rparr>)
   \<and> loop_reach (\<lambda>sT. test_profile unit_externals Hard [280] [900] [950, 850] (slab 290 100) sT [- 1 / 10] 1)
        (energy_threshold (slab 290 100))
        \<lparr>surfaceTpos = 290, diffpos = 500, surfaceTneg = 280, diffneg = - 1000,
         surfaceT = 860 / 3, T_con = [285], counter = 0\<rparr>
        \<lparr>surfaceTpos = 290, diffpos = 500, surfaceTneg = 860 / 3, diffneg = - 500 / 3,
         surfaceT = 860 / 3, T_con = [845 / 3], counter = 1\<rparr>
   \<and> diffneg \<lparr>surfaceTpos = 290, diffpos = 500, surfaceTneg = 860 / 3, diffneg = - 500 / 3,
         surfaceT = 860 / 3, T_con = [845 / 3], counter = 1\<rparr> \<le> 0
   \<and> 0 \<le> diffpos \<lparr>surfaceTpos = 290, diffpos = 500, surfaceTneg = 860 / 3, diffneg = - 500 / 3,
         surfaceT = 860 / 3, T_con = [845 / 3], counter = 1\<rparr>"
proof -
  let ?tp = "\<lambda>sT. test_profile unit_externals Hard [280] [900] [950, 850] (slab 290 100) sT [- 1 / 10] 1"
  let ?nz = "energy_threshold (slab 290 100)"
  let ?st0 = "\<lparr>surfaceTpos = 290, diffpos = 500, surfaceTneg = 280, diffneg = - 1000,
        surfaceT = 860 / 3, T_con = [285], counter = 0\<rparr>"
  let ?st1 = "\<lparr>surfaceTpos = 290, diffpos = 500, surfaceTneg = 860 / 3, diffneg = - 500 / 3,
        surfaceT = 860 / 3, T_con = [845 / 3], counter = 1\<rparr>"
  have nz: "0 \<le> ?nz" by (simp add: energy_threshold_def slab_def)
  have dn: "diffneg ?st0 \<le> 0" by simp
  have "loop_cond ?nz ?st0" by (simp add: loop_cond_def energy_threshold_def slab_def)
  then have r: "loop_reach ?tp ?nz ?st0 ?st1"
    by (rule reach_step [OF reach_init _ two_pass_first]) simp
  from bracket_invariant [OF two_pass_prelude nz dn r] two_pass_prelude r
  show ?thesis by blast
qed

section \<open>Profiles level by level\<close>

lemma length_cumsum_from: "length (cumsum_from acc xs) = length xs"
  by (induction xs arbitrary: acc) simp_all

lemma nth_cumsum_from:
  "i < length xs \<Longrightarrow> cumsum_from acc xs ! i = acc + (\<Sum>j\<le>i. xs ! j)"
proof (induction xs arbitrary: acc i)
  case Nil
  then show ?case by simp
next
  case (Cons x xs)
  show ?case
  proof (cases i)
    case 0
    then show ?thesis by simp
  next
    case (Suc k)
    with Cons.prems have "k < length xs" by simp
    then have "cumsum_from (acc + x) xs ! k = acc + x + (\<Sum>j\<le>k. xs ! j)"
      by (rule Cons.IH)
    moreover have "(\<Sum>j\<le>Suc k. (x # xs) ! j) = (x # xs) ! 0 + (\<Sum>j\<le>k. (x # xs) ! Suc j)"
      by (rule sum.atMost_Suc_shift)
    ultimately show ?thesis using Suc by simp
  qed
qed

lemma length_np_diff: "length (np_diff xs) = length xs - 1"
  by (simp add: np_diff_def)

lemma nth_np_diff: "Suc j < length xs \<Longrightarrow> np_diff xs ! j = xs ! Suc j - xs ! j"
  by (simp add: np_diff_def nth_tl)

lemma length_dp_lapse: "p \<noteq> [] \<Longrightarrow> length (dp_lapse p phlev) = length p"
  by (cases p) (simp_all add: dp_lapse_def length_np_diff)

lemma nth_dp_lapse:
  "dp_lapse p phlev ! 0 = p ! 0 - phlev ! 0"
  "Suc j < length p \<Longrightarrow> dp_lapse p phlev ! Suc j = p ! Suc j - p ! j"
  by (simp_all add: dp_lapse_def nth_np_diff)

lemma length_adiabat:
  "p \<noteq> [] \<Longrightarrow> length lp = length p \<Longrightarrow> length (adiabat p phlev sT lp) = length p"
  by (simp add: adiabat_def np_cumsum_def length_cumsum_from length_dp_lapse)

lemma nth_adiabat:
  assumes "p \<noteq> []" and "length lp = length p" and "i < length p"
  shows "adiabat p phlev sT lp ! i = sT - (\<Sum>j\<le>i. dp_lapse p phlev ! j * lp ! j)"
proof -
  let ?w = "map2 (\<lambda>a b. a * b) (dp_lapse p phlev) lp"
  have len: "length ?w = length p" using assms by (simp add: length_dp_lapse)
  have "(\<Sum>j\<le>i. ?w ! j) = (\<Sum>j\<le>i. dp_lapse p phlev ! j * lp ! j)"
    using assms len by (intro sum.cong) (simp_all add: length_dp_lapse)
  with assms len show ?thesis
    by (simp add: adiabat_def np_cumsum_def length_cumsum_from nth_cumsum_from)
qed

lemma filter_upt_last:
  assumes "c < n" and "P c" and "\<forall>k. c < k \<and> k < n \<longrightarrow> \<not> P k"
  shows "filter P [0..<n] \<noteq> [] \<and> last (filter P [0..<n]) = c"
proof -
  have "[0..<n] = [0..<c] @ c # [Suc c..<n]"
    using assms(1) by (metis less_imp_le_nat upt_add_eq_append upt_conv_Cons le0 add_0 le_add_diff_inverse)
  moreover have "filter P [Suc c..<n] = []"
    using assms(3) by (auto simp: filter_empty_conv)
  ultimately show ?thesis using assms(2) by simp
qed

lemma convective_top_cut_stable:
  assumes "\<forall>k < min (length Tc) (length T_rad). \<not> Tc ! k > T_rad ! k"
  shows "convective_top_cut Tc T_rad = T_rad"
  using assms by (auto simp: convective_top_cut_def filter_empty_conv)

lemma convective_top_cut_unstable:
  assumes "length Tc = length T_rad" and "c < length T_rad" and "Tc ! c > T_rad ! c"
    and "\<forall>k. c < k \<and> k < length T_rad \<longrightarrow> \<not> Tc ! k > T_rad ! k"
  shows "convective_top_cut Tc T_rad = take (Suc c) Tc @ drop (Suc c) T_rad"
proof -
  have "filter (\<lambda>i. Tc ! i > T_rad ! i) [0..<length T_rad] \<noteq> []
      \<and> last (filter (\<lambda>i. Tc ! i > T_rad ! i) [0..<length T_rad]) = c"
    using assms(2,3,4) by (intro filter_upt_last) simp_all
  with assms(1) show ?thesis by (simp add: convective_top_cut_def)
qed

lemma hard_test_profile_returns:
  assumes "p \<noteq> []" and "phlev \<noteq> []"
    and "fixed_temperature s \<or> (heat_capacity s \<noteq> None \<and> const_g ext \<noteq> 0)"
  shows "\<exists>d. HardAdjustment_test_profile ext T_rad p phlev s sT lp timestep
            = Inr (convective_top_cut (adiabat p phlev sT lp) T_rad, d)"
  using assms
  by (auto simp: HardAdjustment_test_profile_def energy_difference_def Let_def)

lemma nth_relaxed_blend:
  assumes "i < length T_rad" and "length tf = length T_rad" and "length ad = length T_rad"
  shows "relaxed_blend T_rad tf ad ! i = T_rad ! i * (1 - tf ! i) + tf ! i * ad ! i"
  using assms by (simp add: relaxed_blend_def)

lemma length_relaxed_blend:
  assumes "length tf = length T_rad" and "length ad = length T_rad"
  shows "length (relaxed_blend T_rad tf ad) = length T_rad"
  using assms by (simp add: relaxed_blend_def)

lemma relaxed_test_profile_returns:
  assumes "p \<noteq> []" and "phlev \<noteq> []"
    and "get_convective_tau convective_tau p = Inr tau" and "0 \<in> set tau \<longrightarrow> 0 < timestep"
    and "fixed_temperature s \<or> (heat_capacity s \<noteq> None \<and> const_g ext \<noteq> 0)"
  shows "\<exists>d. RelaxedAdjustment_test_profile ext convective_tau T_rad p phlev s sT lp timestep
            = Inr (relaxed_blend T_rad
                     (map (\<lambda>t. if t = 0 then 1 else 1 - exp (- timestep / t)) tau)
                     (adiabat p phlev sT lp), d)"
  using assms
  by (auto simp: RelaxedAdjustment_test_profile_def relaxation_fraction_def
        energy_difference_def Let_def)

text \<open>The timescale derived from the pressure levels has no zero entry.\<close>

lemma default_tau:
  assumes "p \<noteq> []" and "0 \<notin> set p"
  shows "\<exists>tau. get_convective_tau None p = Inr tau \<and> length tau = length p \<and> 0 \<notin> set tau"
  using assms by (auto simp: get_convective_tau_def)

lemma prelude_fixed:
  assumes "fixed_temperature s" and "lapse_Pa ext p phlev T_rad lapse = Inr lp"
    and "test_profile ext sch T_rad p phlev s (temperature s) lp timestep = Inr (Tc, d)"
  shows "adjustment_prelude ext sch p phlev T_rad lapse s timestep = Inr (Return Tc (temperature s))"
  using assms by (simp add: adjustment_prelude_def)

lemma test_profile_fixed:
  assumes "fixed_temperature s"
    and "test_profile ext sch T_rad p phlev s sT lp timestep = Inr (Tc, d)"
  shows "d = 0"
  using assms
  by (cases sch)
     (auto simp: HardAdjustment_test_profile_def RelaxedAdjustment_test_profile_def Let_def
        split: sum.splits if_splits)

lemma three_level_adiabat:
  "adiabat [900, 800, 700] [950, 850, 750, 650] 296 [- 1 / 10, - 1 / 10, - 1 / 10] = [291, 281, 271]"
  by (simp add: example_eval)

lemma three_level_lapse:
  "lapse_Pa unit_externals [900, 800, 700] [950, 850, 750, 650] [290, 280, 275]
     [1 / 10, 1 / 10, 1 / 10] = Inr [- (1 / 10), - (1 / 10), - (1 / 10)]"
  by (simp add: example_eval)

section \<open>Claims on the profile builders\<close>

text \<open>
  Claim C5. For aligned profiles, \<^verbatim>\<open>HardAdjustment.test_profile\<close> returns a candidate
  built from the adiabat, whose level \<open>i\<close> is the trial surface temperature minus the
  sum of \<^verbatim>\<open>dp_lapse * lp\<close> up to \<open>i\<close>. With \<open>c\<close> the highest index where the adiabat
  exceeds the radiative profile, the candidate is the adiabat at every index up to and
  including \<open>c\<close> and the radiative profile at every index above; when no index has the
  adiabat exceeding, the candidate is the radiative profile.
\<close>

theorem hard_profile_shape:
  fixes sT :: real
  assumes "p \<noteq> []" and "phlev \<noteq> []" and "length lp = length p" and "length T_rad = length p"
    and "fixed_temperature s \<or> (heat_capacity s \<noteq> None \<and> const_g ext \<noteq> 0)"
  defines "ad \<equiv> adiabat p phlev sT lp"
  shows "\<exists>Tc d. HardAdjustment_test_profile ext T_rad p phlev s sT lp timestep = Inr (Tc, d)
       \<and> length ad = length p
       \<and> (\<forall>i < length p. ad ! i = sT - (\<Sum>j\<le>i. dp_lapse p phlev ! j * lp ! j))
       \<and> (\<forall>c < length p.
             ad ! c > T_rad ! c \<and> (\<forall>k. c < k \<and> k < length p \<longrightarrow> \<not> ad ! k > T_rad ! k)
             \<longrightarrow> (\<forall>i \<le> c. Tc ! i = ad ! i) \<and> (\<forall>i. c < i \<and> i < length p \<longrightarrow> Tc ! i = T_rad ! i))
       \<and> ((\<forall>k < length p. \<not> ad ! k > T_rad ! k) \<longrightarrow> Tc = T_rad)"
proof -
  let ?Tc = "convective_top_cut ad T_rad"
  from assms(1,2,5) obtain d where
    r: "HardAdjustment_test_profile ext T_rad p phlev s sT lp timestep = Inr (?Tc, d)"
    unfolding ad_def using hard_test_profile_returns by blast
  have len: "length ad = length p"
    unfolding ad_def using assms(1,3) by (rule length_adiabat)
  have sums: "\<forall>i < length p. ad ! i = sT - (\<Sum>j\<le>i. dp_lapse p phlev ! j * lp ! j)"
    unfolding ad_def using assms(1,3) by (simp add: nth_adiabat)
  have top: "(\<forall>i \<le> c. ?Tc ! i = ad ! i) \<and> (\<forall>i. c < i \<and> i < length p \<longrightarrow> ?Tc ! i = T_rad ! i)"
    if "c < length p" "ad ! c > T_rad ! c" "\<forall>k. c < k \<and> k < length p \<longrightarrow> \<not> ad ! k > T_rad ! k"
    for c
  proof -
    have "?Tc = take (Suc c) ad @ drop (Suc c) T_rad"
      using that len assms(4) by (intro convective_top_cut_unstable) simp_all
    with that(1) len assms(4) show ?thesis
      by (auto simp: nth_append min_def)
  qed
  have none: "?Tc = T_rad" if "\<forall>k < length p. \<not> ad ! k > T_rad ! k"
    using that len assms(4) by (intro convective_top_cut_stable) simp
  from r len sums top none show ?thesis by blast
qed

theorem hard_profile_shape_witness:
  "\<exists>Tc d. HardAdjustment_test_profile unit_externals [290, 280, 275] [900, 800, 700]
             [950, 850, 750, 650] (slab 295 100) 296 [- 1 / 10, - 1 / 10, - 1 / 10] 1 = Inr (Tc, d)
        \<and> Tc ! 0 = 291 \<and> Tc ! 1 = 281 \<and> Tc ! 2 = 275"
proof -
  let ?p = "[900, 800, 700] :: real list"
  let ?ph = "[950, 850, 750, 650] :: real list"
  let ?lp = "[- 1 / 10, - 1 / 10, - 1 / 10] :: real list"
  let ?T = "[290, 280, 275] :: real list"
  have s: "fixed_temperature (slab 295 100)
         \<or> (heat_capacity (slab 295 100) \<noteq> None \<and> const_g unit_externals \<noteq> 0)"
    by (simp add: slab_def unit_externals_def)
  from hard_profile_shape [of ?p ?ph ?lp ?T "slab 295 100" unit_externals 296 1, OF _ _ _ _ s]
  obtain Tc d where r:
    "HardAdjustment_test_profile unit_externals ?T ?p ?ph (slab 295 100) 296 ?lp 1 = Inr (Tc, d)"
    and top: "\<forall>c < length ?p.
             adiabat ?p ?ph 296 ?lp ! c > ?T ! c
               \<and> (\<forall>k. c < k \<and> k < length ?p \<longrightarrow> \<not> adiabat ?p ?ph 296 ?lp ! k > ?T ! k)
             \<longrightarrow> (\<forall>i \<le> c. Tc ! i = adiabat ?p ?ph 296 ?lp ! i)
                 \<and> (\<forall>i. c < i \<and> i < length ?p \<longrightarrow> Tc ! i = ?T ! i)"
    by auto
  note top1 = top [rule_format, of 1, unfolded three_level_adiabat]
  have k: "\<forall>k. 1 < k \<and> k < length ?p \<longrightarrow> k = 2" by auto
  have "(\<forall>i \<le> 1. Tc ! i = [291, 281, 271] ! i)
      \<and> (\<forall>i. 1 < i \<and> i < length ?p \<longrightarrow> Tc ! i = ?T ! i)"
    by (rule top1) (use k in auto)
  then have "Tc ! 0 = 291" "Tc ! 1 = 281" "Tc ! 2 = 275"
    by simp_all
  with r show ?thesis by blast
qed

text \<open>
  Claim C6. \<^verbatim>\<open>RelaxedAdjustment.test_profile\<close> returns, at every level, the blend
  \<open>T_rad (1 - tf) + tf (surfaceT - cumsum (dp_lapse lp))\<close> with
  \<open>tf = 1 - exp (- timestep / tau)\<close>, which is 1 where \<open>tau\<close> is zero under a positive
  timestep; there is no search for a convective top. At every level where \<open>tf\<close> is 0
  the candidate returned is the radiative profile, and at every level where \<open>tf\<close> is 1
  it is the full adiabat.
\<close>

theorem relaxed_profile_blend:
  fixes sT :: real
  assumes "p \<noteq> []" and "phlev \<noteq> []" and "length lp = length p" and "length T_rad = length p"
    and "get_convective_tau convective_tau p = Inr tau"
    and "length tau = length p" and "0 \<in> set tau \<longrightarrow> 0 < timestep"
    and "fixed_temperature s \<or> (heat_capacity s \<noteq> None \<and> const_g ext \<noteq> 0)"
  shows "\<exists>Tc d tf. RelaxedAdjustment_test_profile ext convective_tau T_rad p phlev s sT lp timestep
                    = Inr (Tc, d)
       \<and> relaxation_fraction timestep tau = Inr tf
       \<and> length Tc = length p
       \<and> (\<forall>i < length p.
             (tau ! i \<noteq> 0 \<longrightarrow> tf ! i = 1 - exp (- timestep / tau ! i))
           \<and> (tau ! i = 0 \<longrightarrow> tf ! i = 1)
           \<and> Tc ! i = T_rad ! i * (1 - tf ! i)
                      + tf ! i * (sT - (\<Sum>j\<le>i. dp_lapse p phlev ! j * lp ! j))
           \<and> (tf ! i = 0 \<longrightarrow> Tc ! i = T_rad ! i)
           \<and> (tf ! i = 1 \<longrightarrow> Tc ! i = sT - (\<Sum>j\<le>i. dp_lapse p phlev ! j * lp ! j)))"
proof -
  let ?tf = "map (\<lambda>t. if t = 0 then 1 else 1 - exp (- timestep / t)) tau"
  let ?ad = "adiabat p phlev sT lp"
  let ?Tc = "relaxed_blend T_rad ?tf ?ad"
  from assms(1,2,5,7,8) obtain d where
    r: "RelaxedAdjustment_test_profile ext convective_tau T_rad p phlev s sT lp timestep
          = Inr (?Tc, d)"
    using relaxed_test_profile_returns by blast
  have tf: "relaxation_fraction timestep tau = Inr ?tf"
    using assms(7) by (simp add: relaxation_fraction_def)
  have lad: "length ?ad = length p" using assms(1,3) by (rule length_adiabat)
  have len: "length ?Tc = length p"
    using assms(4,6) lad by (simp add: length_relaxed_blend)
  have lev: "(tau ! i \<noteq> 0 \<longrightarrow> ?tf ! i = 1 - exp (- timestep / tau ! i))
           \<and> (tau ! i = 0 \<longrightarrow> ?tf ! i = 1)
           \<and> ?Tc ! i = T_rad ! i * (1 - ?tf ! i)
                      + ?tf ! i * (sT - (\<Sum>j\<le>i. dp_lapse p phlev ! j * lp ! j))
           \<and> (?tf ! i = 0 \<longrightarrow> ?Tc ! i = T_rad ! i)
           \<and> (?tf ! i = 1 \<longrightarrow> ?Tc ! i = sT - (\<Sum>j\<le>i. dp_lapse p phlev ! j * lp ! j))"
    if "i < length p" for i
  proof -
    have a: "?ad ! i = sT - (\<Sum>j\<le>i. dp_lapse p phlev ! j * lp ! j)"
      using assms(1,3) that by (rule nth_adiabat)
    have b: "?Tc ! i = T_rad ! i * (1 - ?tf ! i) + ?tf ! i * ?ad ! i"
      using that assms(4,6) lad by (intro nth_relaxed_blend) simp_all
    have c: "?tf ! i = (if tau ! i = 0 then 1 else 1 - exp (- timestep / tau ! i))"
      using that assms(6) by simp
    from a b c show ?thesis by simp
  qed
  from r tf len lev show ?thesis by blast
qed

theorem relaxed_profile_blend_witness:
  "(\<exists>Tc d. RelaxedAdjustment_test_profile unit_externals (Some [0, 1]) [290, 280] [900, 800]
             [950, 850, 750] (slab 295 100) 296 [- (1 / 10), - (1 / 10)] 1 = Inr (Tc, d)
        \<and> Tc ! 0 = 291
        \<and> Tc ! 1 = 280 * (1 - (1 - exp (- 1))) + (1 - exp (- 1)) * 281)
   \<and> (\<exists>Tc d. RelaxedAdjustment_test_profile unit_externals (Some [1, 2]) [290, 280] [900, 800]
             [950, 850, 750] (slab 295 100) 296 [- (1 / 10), - (1 / 10)] 0 = Inr (Tc, d)
        \<and> Tc ! 0 = 290 \<and> Tc ! 1 = 280)"
proof -
  let ?p = "[900, 800] :: real list"
  let ?ph = "[950, 850, 750] :: real list"
  let ?lp = "[- (1 / 10), - (1 / 10)] :: real list"
  let ?T = "[290, 280] :: real list"
  have s: "fixed_temperature (slab 295 100)
         \<or> (heat_capacity (slab 295 100) \<noteq> None \<and> const_g unit_externals \<noteq> 0)"
    by (simp add: slab_def unit_externals_def)
  have sums: "(\<Sum>j\<le>0. dp_lapse ?p ?ph ! j * ?lp ! j) = 5"
    "(\<Sum>j\<le>Suc 0. dp_lapse ?p ?ph ! j * ?lp ! j) = 15"
    by (simp_all add: dp_lapse_def np_diff_def)
  have t0: "get_convective_tau (Some [0, 1]) ?p = Inr [0, 1]"
    and t1: "get_convective_tau (Some [1, 2]) ?p = Inr [1, 2]"
    by (simp_all add: get_convective_tau_def)
  from relaxed_profile_blend [of ?p ?ph ?lp ?T "Some [0, 1]" "[0, 1]" 1 "slab 295 100"
      unit_externals 296, OF _ _ _ _ t0 _ _ s]
  obtain Tc d tf where
    r: "RelaxedAdjustment_test_profile unit_externals (Some [0, 1]) ?T ?p ?ph (slab 295 100) 296 ?lp 1
          = Inr (Tc, d)"
    and lev: "\<forall>i < length ?p.
             ([0, 1] ! i \<noteq> (0 :: real) \<longrightarrow> tf ! i = 1 - exp (- 1 / [0, 1] ! i))
           \<and> ([0, 1] ! i = (0 :: real) \<longrightarrow> tf ! i = 1)
           \<and> Tc ! i = ?T ! i * (1 - tf ! i)
                      + tf ! i * (296 - (\<Sum>j\<le>i. dp_lapse ?p ?ph ! j * ?lp ! j))
           \<and> (tf ! i = 0 \<longrightarrow> Tc ! i = ?T ! i)
           \<and> (tf ! i = 1 \<longrightarrow> Tc ! i = 296 - (\<Sum>j\<le>i. dp_lapse ?p ?ph ! j * ?lp ! j))"
    by auto
  from lev [rule_format, of 0] have a0: "tf ! 0 = 1" by simp
  with lev [rule_format, of 0] sums(1) have a1: "Tc ! 0 = 291" by simp
  from lev [rule_format, of 1] have "tf ! 1 = 1 - exp (- 1)" by simp
  with lev [rule_format, of 1] sums(2)
  have a2: "Tc ! 1 = 280 * (1 - (1 - exp (- 1))) + (1 - exp (- 1)) * 281" by simp
  from relaxed_profile_blend [of ?p ?ph ?lp ?T "Some [1, 2]" "[1, 2]" 0 "slab 295 100"
      unit_externals 296, OF _ _ _ _ t1 _ _ s]
  obtain Tc' d' tf' where
    r': "RelaxedAdjustment_test_profile unit_externals (Some [1, 2]) ?T ?p ?ph (slab 295 100) 296 ?lp 0
          = Inr (Tc', d')"
    and lev': "\<forall>i < length ?p.
             ([1, 2 :: real] ! i \<noteq> 0 \<longrightarrow> tf' ! i = 1 - exp (- 0 / [1, 2 :: real] ! i))
           \<and> (tf' ! i = 0 \<longrightarrow> Tc' ! i = ?T ! i)"
    by auto
  from lev' [rule_format, of 0] lev' [rule_format, of 1]
  have b: "Tc' ! 0 = 290" "Tc' ! 1 = 280" by simp_all
  from r a1 a2 r' b show ?thesis by blast
qed

text \<open>
  Claim C7. For a surface of fixed temperature, \<^verbatim>\<open>test_profile\<close> returns the candidate
  built from the trial temperature with an imbalance of exactly 0, and
  \<^verbatim>\<open>convective_adjustment\<close> returns the candidate built from the current surface
  temperature together with that temperature, unchanged; no energy difference is
  computed. The last part holds for the relaxed scheme as well.
\<close>

theorem fixed_surface_temperature_kept:
  fixes sT :: real
  assumes "fixed_temperature s" and "lapse_Pa ext p phlev T_rad lapse = Inr lp"
    and "p \<noteq> []" and "phlev \<noteq> []"
  shows "HardAdjustment_test_profile ext T_rad p phlev s sT lp timestep
           = Inr (convective_top_cut (adiabat p phlev sT lp) T_rad, 0)
       \<and> convective_adjustment ext Hard p phlev T_rad lapse s timestep
           = Some (Inr (convective_top_cut (adiabat p phlev (temperature s) lp) T_rad, temperature s))
       \<and> (\<forall>sch Tc d. test_profile ext sch T_rad p phlev s (temperature s) lp timestep = Inr (Tc, d)
             \<longrightarrow> d = 0
               \<and> convective_adjustment ext sch p phlev T_rad lapse s timestep
                   = Some (Inr (Tc, temperature s)))"
proof -
  have h: "HardAdjustment_test_profile ext T_rad p phlev s x lp timestep
           = Inr (convective_top_cut (adiabat p phlev x lp) T_rad, 0)" for x
    using assms(1,3,4) by (simp add: HardAdjustment_test_profile_def Let_def)
  have g: "d = 0 \<and> convective_adjustment ext sch p phlev T_rad lapse s timestep
                   = Some (Inr (Tc, temperature s))"
    if "test_profile ext sch T_rad p phlev s (temperature s) lp timestep = Inr (Tc, d)"
    for sch Tc d
  proof -
    from assms(1) that have "d = 0" by (rule test_profile_fixed)
    moreover from assms(1,2) that
    have "adjustment_prelude ext sch p phlev T_rad lapse s timestep = Inr (Return Tc (temperature s))"
      by (rule prelude_fixed)
    ultimately show ?thesis by (simp add: convective_adjustment_def)
  qed
  have "test_profile ext Hard T_rad p phlev s (temperature s) lp timestep
          = Inr (convective_top_cut (adiabat p phlev (temperature s) lp) T_rad, 0)"
    using h by simp
  then have "convective_adjustment ext Hard p phlev T_rad lapse s timestep
           = Some (Inr (convective_top_cut (adiabat p phlev (temperature s) lp) T_rad, temperature s))"
    using g by blast
  with h g show ?thesis by blast
qed

theorem fixed_surface_witness:
  "HardAdjustment_test_profile unit_externals [290, 280, 275] [900, 800, 700] [950, 850, 750, 650]
     (fixed_surface 296) 296 [- (1 / 10), - (1 / 10), - (1 / 10)] 1 = Inr ([291, 281, 275], 0)
   \<and> convective_adjustment unit_externals Hard [900, 800, 700] [950, 850, 750, 650] [290, 280, 275]
       [1 / 10, 1 / 10, 1 / 10] (fixed_surface 296) 1 = Some (Inr ([291, 281, 275], 296))
   \<and> convective_adjustment unit_externals (Relaxed (Some [1, 1, 1])) [900, 800, 700]
       [950, 850, 750, 650] [290, 280, 275] [1 / 10, 1 / 10, 1 / 10] (fixed_surface 296) 0
       = Some (Inr ([290, 280, 275], 296))"
proof -
  let ?p = "[900, 800, 700] :: real list"
  let ?ph = "[950, 850, 750, 650] :: real list"
  let ?lp = "[- (1 / 10), - (1 / 10), - (1 / 10)] :: real list"
  let ?T = "[290, 280, 275] :: real list"
  have f: "fixed_temperature (fixed_surface 296)" by (simp add: fixed_surface_def)
  have ts: "temperature (fixed_surface 296) = 296" by (simp add: fixed_surface_def)
  have cut: "convective_top_cut (adiabat ?p ?ph 296 ?lp) ?T = [291, 281, 275]"
    by (simp add: example_eval)
  have rel: "test_profile unit_externals (Relaxed (Some [1, 1, 1])) ?T ?p ?ph (fixed_surface 296)
               296 ?lp 0 = Inr (?T, 0)"
    by (simp add: RelaxedAdjustment_test_profile_def get_convective_tau_def
          relaxation_fraction_def relaxed_blend_def fixed_surface_def example_eval)
  note a = fixed_surface_temperature_kept [OF f three_level_lapse, of 296 1, unfolded ts cut]
  note b = fixed_surface_temperature_kept [OF f three_level_lapse, of 296 0, unfolded ts cut]
  from a have 1: "HardAdjustment_test_profile unit_externals ?T ?p ?ph (fixed_surface 296) 296 ?lp 1
       = Inr ([291, 281, 275], 0)"
    and 2: "convective_adjustment unit_externals Hard ?p ?ph ?T [1 / 10, 1 / 10, 1 / 10]
       (fixed_surface 296) 1 = Some (Inr ([291, 281, 275], 296))"
    by simp_all
  from b rel have 3: "convective_adjustment unit_externals (Relaxed (Some [1, 1, 1])) ?p ?ph ?T
       [1 / 10, 1 / 10, 1 / 10] (fixed_surface 296) 0 = Some (Inr (?T, 296))"
    by blast
  from 1 2 3 show ?thesis by blast
qed

section \<open>Claims on the driver\<close>

lemma sum_list_map2_zero:
  fixes f :: "real \<Rightarrow> real \<Rightarrow> real"
  assumes "\<And>d. f 0 d = 0"
  shows "sum_list (map2 f (map (\<lambda>_. 0) xs) ys) = 0"
proof (induction xs arbitrary: ys)
  case Nil
  then show ?case by simp
next
  case (Cons x xs)
  then show ?case using assms by (cases ys) simp_all
qed

lemma map2_diff_same: "map2 (\<lambda>a b. a - b) xs xs = map (\<lambda>_. 0::real) xs"
  by (induction xs) simp_all

lemma energy_difference_same:
  assumes "const_g ext \<noteq> 0"
  shows "energy_difference ext T_rad T_rad Ts Ts dp hc = Inr 0"
  using assms
  by (simp add: energy_difference_def map2_diff_same sum_list_map2_zero del: zip_map1 zip_map2 map_zip_map)

lemma no_heating_diagnostics:
  assumes "timestep \<noteq> 0" and "0 \<le> lm"
  shows "calculate_convective_top ext T_rad T_rad p timestep lm =
           Inr \<lparr>convective_heating_rate = map (\<lambda>_. 0) T_rad,
                convective_top_plev = None, convective_top_temperature = None,
                convective_top_index = None\<rparr>"
proof -
  have "map2 (\<lambda>a b. (a - b) / timestep) T_rad T_rad = map (\<lambda>_. 0) T_rad"
    by (induction T_rad) simp_all
  with assms show ?thesis by (auto simp: calculate_convective_top_def)
qed

text \<open>
  The instantaneous scheme on a stable column. For a surface that is of fixed
  temperature or has a positive heat capacity, and a radiative profile that the adiabat
  built from the current surface temperature nowhere exceeds, \<^verbatim>\<open>stabilize\<close> leaves the
  atmosphere and the surface as they were and reports no convective top. (At a zero
  timestep the heating rate it stores is \<open>nan\<close>, which the model does not represent.)
\<close>

lemma hard_stable_profile_unchanged:
  assumes "atm_plev atm \<noteq> []" and "atm_phlev atm \<noteq> []"
    and "lapse_Pa ext (atm_plev atm) (atm_phlev atm) (atm_T atm) lapse = Inr lp"
    and "length lp = length (atm_plev atm)" and "length (atm_T atm) = length (atm_plev atm)"
    and "\<forall>i < length (atm_T atm).
           adiabat (atm_plev atm) (atm_phlev atm) (temperature s) lp ! i \<le> atm_T atm ! i"
    and "fixed_temperature s \<or> (\<exists>hc. heat_capacity s = Some hc \<and> 0 < hc \<and> const_g ext \<noteq> 0)"
    and "timestep \<noteq> 0"
  shows "\<exists>diag. stabilize ext Hard atm lapse s timestep = Some (Inr (atm, s, diag))
           \<and> convective_top_plev diag = None \<and> convective_top_temperature diag = None
           \<and> convective_top_index diag = None"
proof -
  let ?p = "atm_plev atm" and ?ph = "atm_phlev atm" and ?T = "atm_T atm"
  have cut: "convective_top_cut (adiabat ?p ?ph (temperature s) lp) ?T = ?T"
    using assms(6) by (intro convective_top_cut_stable) (simp add: not_less)
  have pre: "adjustment_prelude ext Hard ?p ?ph ?T lapse s timestep = Inr (Return ?T (temperature s))"
  proof (cases "fixed_temperature s")
    case True
    with assms(1,2) cut
    have "test_profile ext Hard ?T ?p ?ph s (temperature s) lp timestep = Inr (?T, 0)"
      by (simp add: HardAdjustment_test_profile_def Let_def)
    with True assms(3) show ?thesis by (rule prelude_fixed)
  next
    case False
    with assms(7) obtain hc where hc: "heat_capacity s = Some hc" "0 < hc" "const_g ext \<noteq> 0"
      by blast
    from hc(3) have "energy_difference ext ?T ?T (temperature s) (temperature s) (np_diff ?ph) hc = Inr 0"
      by (rule energy_difference_same)
    with False hc(1) assms(1,2) cut
    have "test_profile ext Hard ?T ?p ?ph s (temperature s) lp timestep = Inr (?T, 0)"
      by (simp add: HardAdjustment_test_profile_def Let_def)
    with False hc(1,2) assms(3) show ?thesis
      by (simp add: adjustment_prelude_def energy_threshold_def)
  qed
  then have ca: "convective_adjustment ext Hard ?p ?ph ?T lapse s timestep
                  = Some (Inr (?T, temperature s))"
    by (simp add: convective_adjustment_def)
  have "calculate_convective_top ext ?T ?T ?p timestep (2 / 10) =
           Inr \<lparr>convective_heating_rate = map (\<lambda>_. 0) ?T,
                convective_top_plev = None, convective_top_temperature = None,
                convective_top_index = None\<rparr>"
    using assms(8) by (intro no_heating_diagnostics) simp_all
  with ca show ?thesis by (simp add: stabilize_def)
qed

lemma hard_stable_profile_example:
  "\<exists>diag. stabilize unit_externals Hard
       \<lparr>atm_T = [290, 280, 275], atm_plev = [900, 800, 700], atm_phlev = [950, 850, 750, 650],
        atm_H2O = []\<rparr>
       [1 / 10, 1 / 10, 1 / 10] (slab 295 100) 1
     = Some (Inr (\<lparr>atm_T = [290, 280, 275], atm_plev = [900, 800, 700],
                    atm_phlev = [950, 850, 750, 650], atm_H2O = []\<rparr>, slab 295 100, diag))"
proof -
  let ?atm = "\<lparr>atm_T = [290, 280, 275], atm_plev = [900, 800, 700],
                atm_phlev = [950, 850, 750, 650], atm_H2O = []\<rparr>"
  have lp: "lapse_Pa unit_externals (atm_plev ?atm) (atm_phlev ?atm) (atm_T ?atm)
              [1 / 10, 1 / 10, 1 / 10] = Inr [- (1 / 10), - (1 / 10), - (1 / 10)]"
    by (simp add: three_level_lapse)
  have ad: "adiabat (atm_plev ?atm) (atm_phlev ?atm) (temperature (slab 295 100))
              [- (1 / 10), - (1 / 10), - (1 / 10)] = [290, 280, 270]"
    by (simp add: example_eval)
  have st: "\<forall>i < length (atm_T ?atm).
           adiabat (atm_plev ?atm) (atm_phlev ?atm) (temperature (slab 295 100))
             [- (1 / 10), - (1 / 10), - (1 / 10)] ! i \<le> atm_T ?atm ! i"
    unfolding ad by (simp add: less_Suc_eq)
  have s: "fixed_temperature (slab 295 100)
       \<or> (\<exists>hc. heat_capacity (slab 295 100) = Some hc \<and> 0 < hc \<and> const_g unit_externals \<noteq> 0)"
    by (simp add: slab_def unit_externals_def)
  from hard_stable_profile_unchanged [OF _ _ lp _ _ st s, of 1]
  show ?thesis by auto
qed

text \<open>
  Claim C4 fails on the code for the relaxed scheme. Two levels at 300 K and 295 K over
  a surface at 290 K lie above the adiabat of 285 K and 275 K, so the column is stable.
  \<^verbatim>\<open>RelaxedAdjustment.test_profile\<close> still blends towards the adiabat, the imbalance of
  the blend is negative, and the return at line 177, which the comment above it
  describes as applying no adjustment, hands the colder blend to \<^verbatim>\<open>stabilize\<close>. The
  surface temperature is kept. On the same column the instantaneous scheme changes
  nothing.
\<close>

theorem relaxed_stable_column_cooled:
  "adiabat [900, 800] [950, 850, 750] 290 [- (1 / 10), - (1 / 10)] = [285, 275]
   \<and> stabilize unit_externals (Relaxed (Some [1, 1]))
       \<lparr>atm_T = [300, 295], atm_plev = [900, 800], atm_phlev = [950, 850, 750], atm_H2O = []\<rparr>
       [1 / 10, 1 / 10] (slab 290 100) 1
     = Some (Inr (\<lparr>atm_T = [300 * exp (- 1) + (1 - exp (- 1)) * 285,
                            295 * exp (- 1) + (1 - exp (- 1)) * 275],
                    atm_plev = [900, 800], atm_phlev = [950, 850, 750], atm_H2O = []\<rparr>,
                  slab 290 100,
                  \<lparr>convective_heating_rate =
                     [300 * exp (- 1) + (1 - exp (- 1)) * 285 - 300,
                      295 * exp (- 1) + (1 - exp (- 1)) * 275 - 295],
                   convective_top_plev = None, convective_top_temperature = None,
                   convective_top_index = None\<rparr>))
   \<and> [300 * exp (- 1) + (1 - exp (- 1)) * 285, 295 * exp (- 1) + (1 - exp (- 1)) * 275]
       \<noteq> [300, 295 :: real]
   \<and> stabilize unit_externals Hard
       \<lparr>atm_T = [300, 295], atm_plev = [900, 800], atm_phlev = [950, 850, 750], atm_H2O = []\<rparr>
       [1 / 10, 1 / 10] (slab 290 100) 1
     = Some (Inr (\<lparr>atm_T = [300, 295], atm_plev = [900, 800], atm_phlev = [950, 850, 750],
                    atm_H2O = []\<rparr>,
                  slab 290 100,
                  \<lparr>convective_heating_rate = [0, 0],
                   convective_top_plev = None, convective_top_temperature = None,
                   convective_top_index = None\<rparr>))"
proof -
  define a :: real where "a = 300 * exp (- 1) + (1 - exp (- 1)) * 285"
  define b :: real where "b = 295 * exp (- 1) + (1 - exp (- 1)) * 275"
  let ?atm = "\<lparr>atm_T = [300, 295], atm_plev = [900, 800], atm_phlev = [950, 850, 750],
                atm_H2O = []\<rparr>"
  have e: "exp (- 1 :: real) < 1" by simp
  have lt: "a < 300" "b < 295" unfolding a_def b_def using e by (simp_all add: algebra_simps)
  have ad: "adiabat [900, 800] [950, 850, 750] 290 [- (1 / 10), - (1 / 10)] = [285, 275]"
    by (simp add: example_eval)
  have lp: "lapse_Pa unit_externals [900, 800] [950, 850, 750] [300, 295] [1 / 10, 1 / 10]
              = Inr [- (1 / 10), - (1 / 10)]"
    by (simp add: example_eval)
  have tp: "test_profile unit_externals (Relaxed (Some [1, 1])) [300, 295] [900, 800]
              [950, 850, 750] (slab 290 100) 290 [- (1 / 10), - (1 / 10)] 1
              = Inr ([a, b], 100 * (a - 300) + 100 * (b - 295))"
    by (simp add: RelaxedAdjustment_test_profile_def get_convective_tau_def
          relaxation_fraction_def relaxed_blend_def ad a_def b_def slab_def unit_externals_def
          energy_difference_def np_diff_def Let_def algebra_simps)
  have "100 * (a - 300) + 100 * (b - 295) < energy_threshold (slab 290 100)"
    using lt by (simp add: energy_threshold_def slab_def)
  with tp lp have "adjustment_prelude unit_externals (Relaxed (Some [1, 1])) [900, 800]
       [950, 850, 750] [300, 295] [1 / 10, 1 / 10] (slab 290 100) 1 = Inr (Return [a, b] 290)"
    by (simp add: adjustment_prelude_def slab_def)
  then have ca: "convective_adjustment unit_externals (Relaxed (Some [1, 1])) [900, 800]
       [950, 850, 750] [300, 295] [1 / 10, 1 / 10] (slab 290 100) 1 = Some (Inr ([a, b], 290))"
    by (simp add: convective_adjustment_def)
  have cct: "calculate_convective_top unit_externals [300, 295] [a, b] [900, 800] 1 (2 / 10) =
       Inr \<lparr>convective_heating_rate = [a - 300, b - 295],
            convective_top_plev = None, convective_top_temperature = None,
            convective_top_index = None\<rparr>"
    using lt by (simp add: calculate_convective_top_def)
  from ca cct have relaxed: "stabilize unit_externals (Relaxed (Some [1, 1])) ?atm
       [1 / 10, 1 / 10] (slab 290 100) 1
     = Some (Inr (\<lparr>atm_T = [a, b], atm_plev = [900, 800], atm_phlev = [950, 850, 750],
                    atm_H2O = []\<rparr>,
                  slab 290 100,
                  \<lparr>convective_heating_rate = [a - 300, b - 295],
                   convective_top_plev = None, convective_top_temperature = None,
                   convective_top_index = None\<rparr>))"
    by (simp add: stabilize_def slab_def)
  have ne: "[a, b] \<noteq> [300, 295]" using lt by simp
  have cut: "convective_top_cut [285, 275] [300, 295 :: real] = [300, 295]"
    by (simp add: convective_top_cut_def)
  have "test_profile unit_externals Hard [300, 295] [900, 800] [950, 850, 750] (slab 290 100)
          290 [- (1 / 10), - (1 / 10)] 1 = Inr ([300, 295], 0)"
    by (simp add: HardAdjustment_test_profile_def ad cut slab_def unit_externals_def
          energy_difference_def np_diff_def Let_def)
  with lp have "adjustment_prelude unit_externals Hard [900, 800] [950, 850, 750] [300, 295]
       [1 / 10, 1 / 10] (slab 290 100) 1 = Inr (Return [300, 295] 290)"
    by (simp add: adjustment_prelude_def slab_def energy_threshold_def)
  then have "convective_adjustment unit_externals Hard [900, 800] [950, 850, 750] [300, 295]
       [1 / 10, 1 / 10] (slab 290 100) 1 = Some (Inr ([300, 295], 290))"
    by (simp add: convective_adjustment_def)
  then have hard: "stabilize unit_externals Hard ?atm [1 / 10, 1 / 10] (slab 290 100) 1
     = Some (Inr (?atm, slab 290 100,
                  \<lparr>convective_heating_rate = [0, 0],
                   convective_top_plev = None, convective_top_temperature = None,
                   convective_top_index = None\<rparr>))"
    by (simp add: stabilize_def slab_def calculate_convective_top_def)
  from ad relaxed ne hard show ?thesis unfolding a_def b_def by blast
qed

section \<open>Claims on the convective-top interpolation\<close>

lemma py_getitem_first: "xs \<noteq> [] \<Longrightarrow> py_getitem xs 0 = Inr (xs ! 0)"
  by (simp add: py_getitem_def)

lemma py_getitem_minus_one: "xs \<noteq> [] \<Longrightarrow> py_getitem xs (- 1) = Inr (last xs)"
  by (cases xs rule: rev_cases) (simp_all add: py_getitem_def nth_append)

lemma np_argmax_head: "bs \<noteq> [] \<Longrightarrow> hd bs \<Longrightarrow> np_argmax bs = Inr 0"
  by (cases bs) (simp_all add: np_argmax_def)

lemma np_argmax_none: "bs \<noteq> [] \<Longrightarrow> True \<notin> set bs \<Longrightarrow> np_argmax bs = Inr 0"
  by (simp add: np_argmax_def)

lemma wrapped_bracket:
  fixes convective_heating :: "real list"
  assumes "convective_heating \<noteq> []"
    and "convective_heating ! 0 > lm"
    and "\<forall>j. 0 < j \<and> j < length convective_heating \<longrightarrow> \<not> convective_heating ! j < lm"
  shows "np_argmax (map (\<lambda>h. h > lm) convective_heating) = Inr 0"
    and "np_argmax (map (\<lambda>h. h < lm) (drop 0 convective_heating)) = Inr 0"
proof -
  show "np_argmax (map (\<lambda>h. h > lm) convective_heating) = Inr 0"
    using assms(1,2) by (intro np_argmax_head) (simp_all add: hd_map hd_conv_nth)
  have "\<not> convective_heating ! j < lm" if "j < length convective_heating" for j
  proof (cases "j = 0")
    case True
    with assms(2) show ?thesis by (simp add: less_imp_le not_less)
  next
    case False
    with that assms(3) show ?thesis by simp
  qed
  then have "True \<notin> set (map (\<lambda>h. h < lm) convective_heating)"
    by (auto simp: in_set_conv_nth)
  with assms(1) show "np_argmax (map (\<lambda>h. h < lm) (drop 0 convective_heating)) = Inr 0"
    by (intro np_argmax_none) simp_all
qed

lemma interp_variable_wrapped:
  assumes "convective_heating \<noteq> []" and "variable \<noteq> []"
    and "convective_heating ! 0 > lm"
    and "\<forall>j. 0 < j \<and> j < length convective_heating \<longrightarrow> \<not> convective_heating ! j < lm"
  shows "interp_variable ext variable convective_heating lm
           = interp1d ext [last convective_heating, convective_heating ! 0]
               [last variable, variable ! 0] lm"
  using wrapped_bracket [OF assms(1,3,4)] assms(1,2)
  by (simp add: interp_variable_def py_getitem_first py_getitem_minus_one)

text \<open>
  The synthetic heating \<open>[-1, -1, 1, 1]\<close> with a limit of 0 gives the fractional index
  1.5: the heating does not fall back below the limit, and the pair read is the one
  around the first level above it.
\<close>

lemma interp_variable_spec_example:
  "interp_variable unit_externals [0, 1, 2, 3] [- 1, - 1, 1, 1] 0 = Inr (3 / 2)"
  by (simp add: interp_variable_def np_argmax_def py_getitem_def unit_externals_def
        two_point_interp_def)

text \<open>
  Claim C10. When the convective heating exceeds \<^verbatim>\<open>lim\<close> at index 0 and is not below it
  at any later index, both \<^verbatim>\<open>argmax\<close> calls of \<^verbatim>\<open>interp_variable\<close> give 0, the index
  \<^verbatim>\<open>contop_index - 1\<close> is \<open>-1\<close> and reads the last element, and the interpolation runs
  between the last and the first element of the heating and of the variable.
  \<^verbatim>\<open>calculate_convective_top\<close> asks only whether some level exceeds \<^verbatim>\<open>lim\<close>, so its three
  results come from these wrapped pairs.
\<close>

theorem interp_variable_wraps_to_last:
  fixes convective_heating variable :: "real list"
  assumes "convective_heating \<noteq> []" and "variable \<noteq> []"
    and "convective_heating ! 0 > lm"
    and "\<forall>j. 0 < j \<and> j < length convective_heating \<longrightarrow> \<not> convective_heating ! j < lm"
  shows "np_argmax (map (\<lambda>h. h > lm) convective_heating) = Inr 0
       \<and> np_argmax (map (\<lambda>h. h < lm) (drop 0 convective_heating)) = Inr 0
       \<and> py_getitem convective_heating (0 - 1) = Inr (last convective_heating)
       \<and> py_getitem variable (0 - 1) = Inr (last variable)
       \<and> interp_variable ext variable convective_heating lm
            = interp1d ext [last convective_heating, convective_heating ! 0]
                [last variable, variable ! 0] lm
       \<and> (\<forall>T_rad Tc p timestep.
             timestep \<noteq> 0 \<and> p \<noteq> [] \<and> Tc \<noteq> []
             \<and> convective_heating = map2 (\<lambda>a b. (a - b) / timestep) Tc T_rad
             \<longrightarrow> calculate_convective_top ext T_rad Tc p timestep lm
                 = (case interp1d ext [last convective_heating, convective_heating ! 0]
                           [last p, p ! 0] lm of
                      Inl e \<Rightarrow> Inl e
                    | Inr contop_p \<Rightarrow>
                   (case interp1d ext [last convective_heating, convective_heating ! 0]
                           [last Tc, Tc ! 0] lm of
                      Inl e \<Rightarrow> Inl e
                    | Inr contop_T \<Rightarrow>
                   (case interp1d ext [last convective_heating, convective_heating ! 0]
                           [real (length p - 1), 0] lm of
                      Inl e \<Rightarrow> Inl e
                    | Inr contop_index \<Rightarrow>
                        Inr \<lparr>convective_heating_rate = convective_heating,
                             convective_top_plev = Some contop_p,
                             convective_top_temperature = Some contop_T,
                             convective_top_index = Some contop_index\<rparr>))))"
proof -
  note br = wrapped_bracket [OF assms(1,3,4)]
  have g: "py_getitem convective_heating (0 - 1) = Inr (last convective_heating)"
       "py_getitem variable (0 - 1) = Inr (last variable)"
    using assms(1,2) by (simp_all add: py_getitem_minus_one)
  have iv: "interp_variable ext v convective_heating lm
           = interp1d ext [last convective_heating, convective_heating ! 0] [last v, v ! 0] lm"
    if "v \<noteq> []" for v
    using assms(1) that assms(3,4) by (rule interp_variable_wrapped)
  have ex: "\<exists>h \<in> set convective_heating. h > lm"
    using assms(1,3) by (metis length_greater_0_conv nth_mem)
  have caller: "calculate_convective_top ext T_rad Tc p timestep lm
                 = (case interp1d ext [last convective_heating, convective_heating ! 0]
                           [last p, p ! 0] lm of
                      Inl e \<Rightarrow> Inl e
                    | Inr contop_p \<Rightarrow>
                   (case interp1d ext [last convective_heating, convective_heating ! 0]
                           [last Tc, Tc ! 0] lm of
                      Inl e \<Rightarrow> Inl e
                    | Inr contop_T \<Rightarrow>
                   (case interp1d ext [last convective_heating, convective_heating ! 0]
                           [real (length p - 1), 0] lm of
                      Inl e \<Rightarrow> Inl e
                    | Inr contop_index \<Rightarrow>
                        Inr \<lparr>convective_heating_rate = convective_heating,
                             convective_top_plev = Some contop_p,
                             convective_top_temperature = Some contop_T,
                             convective_top_index = Some contop_index\<rparr>)))"
    if "timestep \<noteq> 0" "p \<noteq> []" "Tc \<noteq> []"
      "convective_heating = map2 (\<lambda>a b. (a - b) / timestep) Tc T_rad"
    for T_rad Tc p and timestep :: real
  proof -
    have idx: "map real [0..<length p] \<noteq> []"
      "last (map real [0..<length p]) = real (length p - 1)"
      "map real [0..<length p] ! 0 = 0"
      using that(2) by (simp_all add: last_map nth_upt)
    have "calculate_convective_top ext T_rad Tc p timestep lm
        = (case interp_variable ext p convective_heating lm of
             Inl e \<Rightarrow> Inl e
           | Inr contop_p \<Rightarrow>
          (case interp_variable ext Tc convective_heating lm of
             Inl e \<Rightarrow> Inl e
           | Inr contop_T \<Rightarrow>
          (case interp_variable ext (map real [0..<length p]) convective_heating lm of
             Inl e \<Rightarrow> Inl e
           | Inr contop_index \<Rightarrow>
               Inr \<lparr>convective_heating_rate = convective_heating,
                    convective_top_plev = Some contop_p,
                    convective_top_temperature = Some contop_T,
                    convective_top_index = Some contop_index\<rparr>)))"
      using ex that(1) unfolding that(4) calculate_convective_top_def Let_def by simp
    with iv [OF that(2)] iv [OF that(3)] iv [OF idx(1)] idx(2,3)
    show ?thesis by (simp cong: sum.case_cong)
  qed
  from br g iv [OF assms(2)] caller show ?thesis by blast
qed

theorem interp_variable_wraps_witness:
  "interp_variable unit_externals [900, 800, 700] [1, 1 / 2, 3 / 10] (2 / 10)
     = Inl (ValueError ''A value in x_new is outside the interpolation range'')
   \<and> calculate_convective_top unit_externals [290, 280, 270] [291, 561 / 2, 2703 / 10]
       [900, 800, 700] 1 (2 / 10)
     = Inl (ValueError ''A value in x_new is outside the interpolation range'')
   \<and> interp_variable unit_externals [900, 800, 700] [1, 1 / 2, 2 / 10] (2 / 10) = Inr 700"
proof -
  have h: "map2 (\<lambda>a b. (a - b) / 1) [291, 561 / 2, 2703 / 10] [290, 280, 270]
             = [1, 1 / 2, 3 / 10 :: real]"
    by simp
  have never: "\<forall>j. 0 < j \<and> j < length [1, 1 / 2, 3 / 10 :: real]
                 \<longrightarrow> \<not> [1, 1 / 2, 3 / 10 :: real] ! j < 2 / 10"
    by (auto simp: less_Suc_eq)
  have never': "\<forall>j. 0 < j \<and> j < length [1, 1 / 2, 2 / 10 :: real]
                 \<longrightarrow> \<not> [1, 1 / 2, 2 / 10 :: real] ! j < 2 / 10"
    by (auto simp: less_Suc_eq)
  have first: "[1, 1 / 2, 3 / 10 :: real] ! 0 > 2 / 10" "[1, 1 / 2, 2 / 10 :: real] ! 0 > 2 / 10"
    by simp_all
  note a = interp_variable_wraps_to_last [of "[1, 1 / 2, 3 / 10]" "[900, 800, 700]" "2 / 10"
      unit_externals, OF _ _ first(1) never]
  note b = interp_variable_wraps_to_last [of "[1, 1 / 2, 2 / 10]" "[900, 800, 700]" "2 / 10"
      unit_externals, OF _ _ first(2) never']
  from a have c: "calculate_convective_top unit_externals [290, 280, 270] [291, 561 / 2, 2703 / 10]
       [900, 800, 700] 1 (2 / 10)
      = (case interp1d unit_externals [last [1, 1 / 2, 3 / 10], [1, 1 / 2, 3 / 10] ! 0]
                [last [900, 800, 700], [900, 800, 700] ! 0] (2 / 10) of
           Inl e \<Rightarrow> Inl e
         | Inr contop_p \<Rightarrow>
        (case interp1d unit_externals [last [1, 1 / 2, 3 / 10], [1, 1 / 2, 3 / 10] ! 0]
                [last [291, 561 / 2, 2703 / 10], [291, 561 / 2, 2703 / 10] ! 0] (2 / 10) of
           Inl e \<Rightarrow> Inl e
         | Inr contop_T \<Rightarrow>
        (case interp1d unit_externals [last [1, 1 / 2, 3 / 10], [1, 1 / 2, 3 / 10] ! 0]
                [real (length [900, 800, 700 :: real] - 1), 0] (2 / 10) of
           Inl e \<Rightarrow> Inl e
         | Inr contop_index \<Rightarrow>
             Inr \<lparr>convective_heating_rate = [1, 1 / 2, 3 / 10],
                  convective_top_plev = Some contop_p,
                  convective_top_temperature = Some contop_T,
                  convective_top_index = Some contop_index\<rparr>)))"
    using h by simp
  from a have 1: "interp_variable unit_externals [900, 800, 700] [1, 1 / 2, 3 / 10] (2 / 10)
     = Inl (ValueError ''A value in x_new is outside the interpolation range'')"
    by (simp add: unit_externals_def two_point_interp_def)
  have 2: "calculate_convective_top unit_externals [290, 280, 270] [291, 561 / 2, 2703 / 10]
       [900, 800, 700] 1 (2 / 10)
     = Inl (ValueError ''A value in x_new is outside the interpolation range'')"
    unfolding c by (simp add: unit_externals_def two_point_interp_def)
  from b have 3: "interp_variable unit_externals [900, 800, 700] [1, 1 / 2, 2 / 10] (2 / 10) = Inr 700"
    by (simp add: unit_externals_def two_point_interp_def)
  from 1 2 3 show ?thesis by blast
qed

section \<open>Claims on the humidity policies\<close>

lemma integrate_vmr_scaled:
  "integrate_vmr w (map (\<lambda>v. v * c / k) vmr) pr = integrate_vmr w vmr pr * c / k"
proof -
  have "sum_list (map2 (\<lambda>v d. v * d) (map (\<lambda>v. v * c / k) xs) ys)
          = sum_list (map2 (\<lambda>v d. v * d) xs ys) * c / k" for xs ys :: "real list"
  proof (induction xs arbitrary: ys)
    case Nil
    then show ?case by simp
  next
    case (Cons x xs)
    then show ?case by (cases ys) (simp_all add: algebra_simps add_divide_distrib)
  qed
  then show ?thesis by (simp add: integrate_vmr_def)
qed

lemma integrate_vmr_empty: "integrate_vmr w [] pr = 0"
  by (simp add: integrate_vmr_def)

lemma rescale_IWV_without_target:
  assumes "IWV self = None" and "integrate_vmr w (atm_H2O atm) (atm_plev atm) \<noteq> 0"
  shows "rescale_IWV w self atm
           = Inr (self\<lparr>IWV := Some (integrate_vmr w (atm_H2O atm) (atm_plev atm))\<rparr>, atm,
                  [no_changed_IWV])"
proof -
  let ?c = "integrate_vmr w (atm_H2O atm) (atm_plev atm)"
  have "map (\<lambda>v. v * ?c / ?c) (atm_H2O atm) = atm_H2O atm"
    using assms(2) by (simp add: map_idI)
  then have "atm\<lparr>atm_H2O := map (\<lambda>v. v * ?c / ?c) (atm_H2O atm)\<rparr> = atm" by simp
  with assms show ?thesis by (simp add: rescale_IWV_def Let_def py_not_def)
qed

lemmas humidity_eval = rescale_IWV_def integrate_vmr_def FixedIWV_init_def py_not_def Let_def

text \<open>
  Claim C8. When a call of \<^verbatim>\<open>FixedIWV.rescale_IWV\<close> returns with finite values, a second
  call right after it returns as well, leaves the atmosphere as the first call left it
  and so reproduces the same integrated water vapor; for a vapor field that is not
  empty the target divided by the current integral is 1 and no warning is emitted. A
  first call without a target records the current integral as the target and warns.
\<close>

theorem rescale_IWV_twice:
  assumes "rescale_IWV w self atm = Inr (self1, atm1, warned1)"
  shows "\<exists>self2 atm2 warned2. rescale_IWV w self1 atm1 = Inr (self2, atm2, warned2)
       \<and> integrate_vmr w (atm_H2O atm2) (atm_plev atm2)
           = integrate_vmr w (atm_H2O atm1) (atm_plev atm1)
       \<and> atm2 = atm1
       \<and> (atm_H2O atm \<noteq> [] \<longrightarrow>
             (\<exists>target. IWV self1 = Some target
                \<and> target / integrate_vmr w (atm_H2O atm1) (atm_plev atm1) = 1)
             \<and> self2 = self1 \<and> warned2 = [])
       \<and> (IWV self = None \<longrightarrow>
             IWV self1 = Some (integrate_vmr w (atm_H2O atm) (atm_plev atm))
             \<and> warned1 = [no_changed_IWV])"
proof -
  define c where "c = integrate_vmr w (atm_H2O atm) (atm_plev atm)"
  define target where "target = (if py_not (IWV self) then c else the (IWV self))"
  from assms have ok: "\<not> (c = 0 \<and> atm_H2O atm \<noteq> [])"
    and self1: "self1 = (if py_not (IWV self) then self\<lparr>IWV := Some c\<rparr> else self)"
    and atm1: "atm1 = atm\<lparr>atm_H2O := map (\<lambda>v. v * target / c) (atm_H2O atm)\<rparr>"
    and w1: "warned1 = (if py_not (IWV self) then [no_changed_IWV] else [])"
    by (auto simp: rescale_IWV_def Let_def c_def target_def split: if_splits)
  have t1: "IWV self1 = (if py_not (IWV self) then Some c else IWV self)"
    by (simp add: self1)
  have rec: "IWV self = None \<longrightarrow> IWV self1 = Some c \<and> warned1 = [no_changed_IWV]"
    by (simp add: self1 w1 py_not_def)
  show ?thesis
  proof (cases "atm_H2O atm = []")
    case True
    then have e: "atm_H2O atm1 = []" by (simp add: atm1)
    then have "atm1\<lparr>atm_H2O := []\<rparr> = atm1" by (cases atm1) simp
    with e have "rescale_IWV w self1 atm1
        = Inr (if py_not (IWV self1) then self1\<lparr>IWV := Some 0\<rparr> else self1, atm1,
               if py_not (IWV self1) then [no_changed_IWV] else [])"
      by (simp add: rescale_IWV_def Let_def integrate_vmr_empty)
    with True e rec show ?thesis by (simp add: c_def)
  next
    case False
    with ok have c0: "c \<noteq> 0" by simp
    have tn: "target \<noteq> 0" using c0 by (auto simp: target_def py_not_def split: option.splits)
    have ts: "IWV self1 = Some target"
      by (auto simp: t1 target_def py_not_def split: option.splits)
    have i1: "integrate_vmr w (atm_H2O atm1) (atm_plev atm1) = target"
      using c0 by (simp add: atm1 integrate_vmr_scaled c_def [symmetric])
    have ne: "atm_H2O atm1 \<noteq> []" using False by (simp add: atm1)
    have "map (\<lambda>v. v * target / target) (atm_H2O atm1) = atm_H2O atm1"
      using tn by (simp add: map_idI)
    then have "atm1\<lparr>atm_H2O := map (\<lambda>v. v * target / target) (atm_H2O atm1)\<rparr> = atm1"
      by simp
    then have r2: "rescale_IWV w self1 atm1 = Inr (self1, atm1, [])"
      using tn ts i1 by (simp add: rescale_IWV_def Let_def py_not_def)
    from r2 ts i1 tn rec False show ?thesis by (simp add: c_def)
  qed
qed

theorem rescale_IWV_twice_witness:
  "rescale_IWV (map (\<lambda>_. 100)) (FixedIWV_init (None :: unit option) (None :: unit option) (Some 3))
       \<lparr>atm_T = [], atm_plev = [900, 800], atm_phlev = [], atm_H2O = [1 / 100, 1 / 200]\<rparr>
     = Inr (FixedIWV_init None None (Some 3),
            \<lparr>atm_T = [], atm_plev = [900, 800], atm_phlev = [], atm_H2O = [1 / 50, 1 / 100]\<rparr>, [])
   \<and> rescale_IWV (map (\<lambda>_. 100)) (FixedIWV_init (None :: unit option) (None :: unit option) (Some 3))
       \<lparr>atm_T = [], atm_plev = [900, 800], atm_phlev = [], atm_H2O = [1 / 50, 1 / 100]\<rparr>
     = Inr (FixedIWV_init None None (Some 3),
            \<lparr>atm_T = [], atm_plev = [900, 800], atm_phlev = [], atm_H2O = [1 / 50, 1 / 100]\<rparr>, [])
   \<and> integrate_vmr (map (\<lambda>_. 100)) [1 / 50, 1 / 100] [900, 800] = 3
   \<and> rescale_IWV (map (\<lambda>_. 100)) (FixedIWV_init (None :: unit option) (None :: unit option) None)
       \<lparr>atm_T = [], atm_plev = [900, 800], atm_phlev = [], atm_H2O = [1 / 100, 1 / 200]\<rparr>
     = Inr (FixedIWV_init None None (Some (3 / 2)),
            \<lparr>atm_T = [], atm_plev = [900, 800], atm_phlev = [], atm_H2O = [1 / 100, 1 / 200]\<rparr>,
            [no_changed_IWV])"
proof -
  let ?w = "map (\<lambda>_. 100) :: real list \<Rightarrow> real list"
  let ?self = "FixedIWV_init (None :: unit option) (None :: unit option) (Some 3)"
  let ?none = "FixedIWV_init (None :: unit option) (None :: unit option) None"
  let ?atm = "\<lparr>atm_T = [], atm_plev = [900, 800], atm_phlev = [], atm_H2O = [1 / 100, 1 / 200]\<rparr>"
  let ?atm1 = "\<lparr>atm_T = [], atm_plev = [900, 800], atm_phlev = [], atm_H2O = [1 / 50, 1 / 100]\<rparr>"
  have a: "rescale_IWV ?w ?self ?atm = Inr (?self, ?atm1, [])"
    by (simp add: humidity_eval)
  have b: "rescale_IWV ?w ?none ?atm
             = Inr (FixedIWV_init None None (Some (3 / 2)), ?atm, [no_changed_IWV])"
    by (simp add: humidity_eval)
  from rescale_IWV_twice [OF a]
  have 2: "rescale_IWV ?w ?self ?atm1 = Inr (?self, ?atm1, [])"
    and 3: "integrate_vmr ?w [1 / 50, 1 / 100] [900, 800] = 3"
    by (auto simp: FixedIWV_init_def)
  from rescale_IWV_twice [OF b]
  have "IWV (FixedIWV_init (None :: unit option) (None :: unit option) (Some (3 / 2)))
          = Some (integrate_vmr ?w [1 / 100, 1 / 200] [900, 800])"
    by (simp add: FixedIWV_init_def)
  with a b 2 3 show ?thesis by blast
qed

text \<open>
  Claim C9 fails on the code: constructing \<^verbatim>\<open>ChangeRHwithp\<close> raises \<^verbatim>\<open>NameError\<close>, whatever
  is passed for \<^verbatim>\<open>f_p\<close>, because the guard of the constructor reads the unbound name
  \<^verbatim>\<open>f_T\<close>. The star imports are taken to add the two names the module uses from them.
\<close>

theorem ChangeRHwithp_init_raises:
  "ChangeRHwithp_init (module_globals [''ColdPointCoupling'', ''VerticallyUniform''])
     rh sc f_p target = Inl (NameError ''f_T'')"
  by (simp add: ChangeRHwithp_init_def lookup_global_def module_globals_def)

end
